theory Spec2Isabelle
  imports Main "HOL-Library.Sublist" "HOL-Library.AList"
begin

section \<open>Strings\<close>

text \<open>
  Messages are modelled as lists of code points below 256. \<open>toLowerCase\<close> follows the
  Unicode simple lower-case mapping on that range: the ASCII capitals and the Latin-1
  capitals (U+00C0 to U+00DE, without the multiplication sign U+00D7) move up by 32.
\<close>

definition toLowerCase_char :: "char \<Rightarrow> char" where
  "toLowerCase_char c =
     (let n = (of_char c :: nat)
      in if (65 \<le> n \<and> n \<le> 90) \<or> (192 \<le> n \<and> n \<le> 222 \<and> n \<noteq> 215)
         then char_of (n + 32) else c)"

definition toLowerCase :: "string \<Rightarrow> string" where
  "toLowerCase s = map toLowerCase_char s"

text \<open>\<open>String.prototype.includes\<close>: the argument occurs as a contiguous substring.\<close>

fun str_includes :: "string \<Rightarrow> string \<Rightarrow> bool" where
  "str_includes [] sub = (sub = [])"
| "str_includes (c # cs) sub = (prefix sub (c # cs) \<or> str_includes cs sub)"

text \<open>Decimal rendering of a number inside a template string.\<close>

function string_of_nat :: "nat \<Rightarrow> string" where
  "string_of_nat n =
     (if n < 10 then [char_of (48 + n)]
      else string_of_nat (n div 10) @ [char_of (48 + n mod 10)])"
  by pat_completeness auto
termination
  by (relation "measure id") auto

declare string_of_nat.simps [simp del]

definition string_of_int :: "int \<Rightarrow> string" where
  "string_of_int i = (if i < 0 then CHR ''-'' # string_of_nat (nat (- i)) else string_of_nat (nat i))"

section \<open>Error taxonomy (types/errors.ts)\<close>

datatype ErrorCode =
    NETWORK_ERROR | CONNECTION_TIMEOUT | RPC_ERROR
  | INVALID_PUBLIC_KEY | ACCOUNT_NOT_FOUND | INVALID_ACCOUNT_DATA | DISTRIBUTOR_NOT_FOUND
  | WALLET_NOT_CONNECTED | WALLET_DISCONNECTED | UNAUTHORIZED
  | INVALID_DATA_FORMAT | MISSING_REQUIRED_FIELD | TYPE_VALIDATION_ERROR
  | TRANSACTION_FAILED | TRANSACTION_TIMEOUT
  | UNKNOWN_ERROR | INTERNAL_ERROR | CONFIGURATION_ERROR

text \<open>
  A thrown value is an instance of \<open>StreamFlowError\<close> (or of one of its subclasses), another
  \<open>Error\<close> carrying a message, a string, or anything else (\<open>undefined\<close> included).
  An \<open>ErrorContext\<close> is an object with string keys, kept as an association list in
  insertion order; its values are the kinds of values the program stores there.
\<close>

datatype thrown =
    SFE sferror
  | JSError string
  | JSString string
  | JSOther
and sferror =
    StreamFlowError (name: string) (code: ErrorCode) (message: string)
      (errContext: "(string \<times> ctxval) list") (timestamp: nat) (retryable: bool)
and ctxval =
    CUndefined | CNum int | CStr string | CStrs "string list" | CErr thrown

type_synonym ErrorContext = "(string \<times> ctxval) list"

text \<open>The constructors; the instant read by \<open>new Date()\<close> is an explicit argument.\<close>

definition new_StreamFlowError ::
  "nat \<Rightarrow> ErrorCode \<Rightarrow> string \<Rightarrow> ErrorContext \<Rightarrow> bool \<Rightarrow> sferror" where
  "new_StreamFlowError t c m ctx r = StreamFlowError ''StreamFlowError'' c m ctx t r"

definition new_NetworkError :: "nat \<Rightarrow> string \<Rightarrow> ErrorContext \<Rightarrow> sferror" where
  "new_NetworkError t m ctx = StreamFlowError ''NetworkError'' NETWORK_ERROR m ctx t True"

definition new_NotFoundError :: "nat \<Rightarrow> ErrorCode \<Rightarrow> string \<Rightarrow> ErrorContext \<Rightarrow> sferror" where
  "new_NotFoundError t c m ctx = StreamFlowError ''NotFoundError'' c m ctx t False"

fun getUserMessage :: "sferror \<Rightarrow> string" where
  "getUserMessage e =
     (case code e of
        NETWORK_ERROR \<Rightarrow>
          ''Network connection failed. Please check your internet connection and try again.''
      | CONNECTION_TIMEOUT \<Rightarrow> ''Request timed out. Please try again.''
      | RPC_ERROR \<Rightarrow> ''Blockchain connection failed. Please try again later.''
      | ACCOUNT_NOT_FOUND \<Rightarrow> ''The requested account could not be found.''
      | DISTRIBUTOR_NOT_FOUND \<Rightarrow> ''The airdrop campaign could not be found.''
      | INVALID_PUBLIC_KEY \<Rightarrow> ''Invalid address format provided.''
      | WALLET_NOT_CONNECTED \<Rightarrow> ''Please connect your wallet to continue.''
      | WALLET_DISCONNECTED \<Rightarrow> ''Wallet was disconnected. Please reconnect to continue.''
      | TRANSACTION_FAILED \<Rightarrow> ''Transaction failed. Please try again.''
      | TRANSACTION_TIMEOUT \<Rightarrow> ''Transaction timed out. Please try again.''
      | INVALID_DATA_FORMAT \<Rightarrow> ''The received data format is invalid.''
      | UNAUTHORIZED \<Rightarrow> ''You are not authorized to perform this action.''
      | _ \<Rightarrow> ''An unexpected error occurred. Please try again.'')"

text \<open>
  \<open>createStreamFlowError(error, context)\<close>. The spread \<open>{ ...context, originalError: error }\<close>
  overwrites the key in place when the context has it and appends it otherwise.
\<close>

fun createStreamFlowError :: "nat \<Rightarrow> thrown \<Rightarrow> ErrorContext \<Rightarrow> sferror" where
  "createStreamFlowError t (SFE e) ctx = e"
| "createStreamFlowError t (JSError msg) ctx =
     (let m = toLowerCase msg in
      if str_includes m ''network'' \<or> str_includes m ''fetch''
        then new_NetworkError t msg (AList.update ''originalError'' (CErr (JSError msg)) ctx)
      else if str_includes m ''timeout''
        then new_StreamFlowError t CONNECTION_TIMEOUT msg ctx True
      else if str_includes m ''account does not exist'' \<or> str_includes m ''account not found''
        then new_NotFoundError t ACCOUNT_NOT_FOUND msg ctx
      else if str_includes m ''invalid public key'' \<or> str_includes m ''invalid address''
        then new_StreamFlowError t INVALID_PUBLIC_KEY msg ctx False
      else if str_includes m ''invalid account data''
        then new_StreamFlowError t INVALID_ACCOUNT_DATA msg ctx False
      else new_StreamFlowError t UNKNOWN_ERROR msg
             (AList.update ''originalError'' (CErr (JSError msg)) ctx) True)"
| "createStreamFlowError t (JSString s) ctx =
     new_StreamFlowError t UNKNOWN_ERROR s
       (AList.update ''originalError'' (CErr (JSString s)) ctx) True"
| "createStreamFlowError t JSOther ctx =
     new_StreamFlowError t UNKNOWN_ERROR ''An unknown error occurred''
       (AList.update ''originalError'' (CErr JSOther) ctx) True"

subsection \<open>The classifier's rules as the specification words them\<close>

text \<open>
  The ordered rule table of the specification: each rule lists its substrings, the kind and
  the retry flag; the first rule with a matching substring decides, and no match means
  unknown, retryable.
\<close>

definition spec_rules :: "(string list \<times> ErrorCode \<times> bool) list" where
  "spec_rules =
     [([''network'', ''fetch''], NETWORK_ERROR, True),
      ([''timeout''], CONNECTION_TIMEOUT, True),
      ([''account does not exist'', ''account not found''], ACCOUNT_NOT_FOUND, False),
      ([''invalid public key'', ''invalid address''], INVALID_PUBLIC_KEY, False),
      ([''invalid account data''], INVALID_ACCOUNT_DATA, False)]"

fun spec_first_match :: "string \<Rightarrow> (string list \<times> ErrorCode \<times> bool) list \<Rightarrow> ErrorCode \<times> bool" where
  "spec_first_match m [] = (UNKNOWN_ERROR, True)"
| "spec_first_match m ((subs, k, r) # rules) =
     (if list_ex (str_includes m) subs then (k, r) else spec_first_match m rules)"

definition spec_classify :: "string \<Rightarrow> ErrorCode \<times> bool" where
  "spec_classify msg = spec_first_match (toLowerCase msg) spec_rules"

section \<open>The runtime: explicit state of an asynchronous computation\<close>

datatype LogLevel = DEBUG | INFO | WARN | ERROR

datatype pubkey = PublicKey (toBase58: string)

text \<open>
  Everything the program touches outside its own values is a field of the state:
  \<open>world\<close> is the state of the remote service behind the SDK client, \<open>clock\<close> the current
  instant in milliseconds, \<open>random\<close> and \<open>draws\<close> the successive random suffixes and how many
  were taken, \<open>timers\<close> the delays handed to \<open>setTimeout\<close>, \<open>console\<close> the lines written by
  the logger (level and message; the context payload of a line is not kept), and \<open>lookups\<close>
  the derived keys handed to \<open>client.getClaim\<close>, in call order.
\<close>

record 'w rt =
  world :: 'w
  clock :: nat
  random :: "nat \<Rightarrow> string"
  draws :: nat
  timers :: "int list"
  console :: "(LogLevel \<times> string) list"
  lookups :: "pubkey list"

text \<open>
  An asynchronous function is a state transformer that either throws (\<open>Inl\<close>) or returns
  (\<open>Inr\<close>); \<open>await\<close> is sequencing.
\<close>

type_synonym ('a, 'w) js = "'w rt \<Rightarrow> (thrown + 'a) \<times> 'w rt"

definition Return :: "'a \<Rightarrow> ('a, 'w) js" where
  "Return v s = (Inr v, s)"

definition Throw :: "thrown \<Rightarrow> ('a, 'w) js" where
  "Throw e s = (Inl e, s)"

definition andThen :: "('a, 'w) js \<Rightarrow> ('a \<Rightarrow> ('b, 'w) js) \<Rightarrow> ('b, 'w) js" where
  "andThen m f s = (case m s of (Inl e, s1) \<Rightarrow> (Inl e, s1) | (Inr v, s1) \<Rightarrow> f v s1)"

definition try_catch :: "('a, 'w) js \<Rightarrow> (thrown \<Rightarrow> ('a, 'w) js) \<Rightarrow> ('a, 'w) js" where
  "try_catch body handler s =
     (case body s of (Inl e, s1) \<Rightarrow> handler e s1 | (Inr v, s1) \<Rightarrow> (Inr v, s1))"

definition sync :: "thrown + 'a \<Rightarrow> ('a, 'w) js" where
  "sync r s = (r, s)"

definition Date_now :: "(nat, 'w) js" where
  "Date_now s = (Inr (clock s), s)"

definition setTimeout :: "int \<Rightarrow> (unit, 'w) js" where
  "setTimeout delay s =
     (Inr (), s\<lparr>timers := timers s @ [delay], clock := clock s + nat delay\<rparr>)"

primrec mapM :: "('a \<Rightarrow> ('b, 'w) js) \<Rightarrow> 'a list \<Rightarrow> ('b list, 'w) js" where
  "mapM f [] = Return []"
| "mapM f (x # xs) = andThen (f x) (\<lambda>y. andThen (mapM f xs) (\<lambda>ys. Return (y # ys)))"

section \<open>Retry policy (types/errors.ts)\<close>

record RetryConfig =
  maxRetries :: int
  baseDelay :: int
  maxDelay :: int
  exponentialBackoff :: bool

text \<open>\<open>Partial<RetryConfig>\<close>: \<open>None\<close> is a property the object does not have.\<close>

record PartialRetryConfig =
  p_maxRetries :: "int option"
  p_baseDelay :: "int option"
  p_maxDelay :: "int option"
  p_exponentialBackoff :: "bool option"

definition DEFAULT_RETRY_CONFIG :: RetryConfig where
  "DEFAULT_RETRY_CONFIG =
     \<lparr>maxRetries = 3, baseDelay = 1000, maxDelay = 10000, exponentialBackoff = True\<rparr>"

definition empty_config :: PartialRetryConfig where
  "empty_config =
     \<lparr>p_maxRetries = None, p_baseDelay = None, p_maxDelay = None, p_exponentialBackoff = None\<rparr>"

definition merge_config :: "RetryConfig \<Rightarrow> PartialRetryConfig \<Rightarrow> RetryConfig" where
  "merge_config d c =
     \<lparr>maxRetries = (case p_maxRetries c of None \<Rightarrow> maxRetries d | Some v \<Rightarrow> v),
      baseDelay = (case p_baseDelay c of None \<Rightarrow> baseDelay d | Some v \<Rightarrow> v),
      maxDelay = (case p_maxDelay c of None \<Rightarrow> maxDelay d | Some v \<Rightarrow> v),
      exponentialBackoff =
        (case p_exponentialBackoff c of None \<Rightarrow> exponentialBackoff d | Some v \<Rightarrow> v)\<rparr>"

definition retry_delay :: "RetryConfig \<Rightarrow> int \<Rightarrow> int" where
  "retry_delay cfg attempt =
     (if exponentialBackoff cfg then min (baseDelay cfg * 2 ^ nat attempt) (maxDelay cfg)
      else baseDelay cfg)"

text \<open>
  The \<open>for\<close> loop of \<open>withRetry\<close>, from a given attempt index; \<open>lastError\<close> is \<open>None\<close> while
  unassigned, and the \<open>throw lastError!\<close> after the loop then throws \<open>undefined\<close>.
\<close>

function withRetry_loop ::
  "('a, 'w) js \<Rightarrow> RetryConfig \<Rightarrow> int \<Rightarrow> sferror option \<Rightarrow> ('a, 'w) js" where
  "withRetry_loop operation cfg attempt lastError s =
     (if attempt \<le> maxRetries cfg then
        (case operation s of
           (Inr v, s1) \<Rightarrow> (Inr v, s1)
         | (Inl error, s1) \<Rightarrow>
             (let lastError' = createStreamFlowError (clock s1) error
                    [(''attempt'', CNum attempt), (''maxRetries'', CNum (maxRetries cfg))]
              in if \<not> retryable lastError' \<or> attempt = maxRetries cfg
                 then (Inl (SFE lastError'), s1)
                 else withRetry_loop operation cfg (attempt + 1) (Some lastError')
                        (snd (setTimeout (retry_delay cfg attempt) s1))))
      else (Inl (case lastError of None \<Rightarrow> JSOther | Some e \<Rightarrow> SFE e), s))"
  by pat_completeness auto
termination
  by (relation "measure (\<lambda>(operation, cfg, attempt, lastError, s). nat (maxRetries cfg + 1 - attempt))")
     auto

declare withRetry_loop.simps [simp del]

definition withRetry :: "('a, 'w) js \<Rightarrow> PartialRetryConfig \<Rightarrow> ('a, 'w) js" where
  "withRetry operation config =
     withRetry_loop operation (merge_config DEFAULT_RETRY_CONFIG config) 0 None"

section \<open>Operation wrapper (lib/error-handler.ts)\<close>

definition errorLogger_log :: "LogLevel \<Rightarrow> string \<Rightarrow> (unit, 'w) js" where
  "errorLogger_log level msg s = (Inr (), s\<lparr>console := console s @ [(level, msg)]\<rparr>)"

definition errorLogger_error :: "sferror \<Rightarrow> (unit, 'w) js" where
  "errorLogger_error e s = (Inr (), s\<lparr>console := console s @ [(ERROR, getUserMessage e)]\<rparr>)"

definition createErrorId :: "(string, 'w) js" where
  "createErrorId s =
     (Inr (''error_'' @ string_of_nat (clock s) @ ''_'' @ random s (draws s)),
      s\<lparr>draws := Suc (draws s)\<rparr>)"

text \<open>
  The pair returned by the wrappers, \<open>{ data: T | null; error: StreamFlowError | null }\<close>.
  A value that may be \<open>null\<close> is an option, \<open>None\<close> standing for \<open>null\<close>; a wrapped
  operation returns such a value, and \<open>data\<close> is that value.
\<close>

record 'a AsyncResult =
  data :: "'a option"
  error :: "sferror option"

definition handleAsyncOperation ::
  "('a option, 'w) js \<Rightarrow> string \<Rightarrow> ErrorContext \<Rightarrow> ('a AsyncResult, 'w) js" where
  "handleAsyncOperation operation operationName ctx =
     try_catch
       (andThen (errorLogger_log DEBUG (''Starting operation: '' @ operationName)) (\<lambda>_.
        andThen operation (\<lambda>d.
        andThen (errorLogger_log DEBUG (''Completed operation: '' @ operationName)) (\<lambda>_.
        Return \<lparr>data = d, error = None\<rparr>))))
       (\<lambda>err.
        andThen createErrorId (\<lambda>errorId.
        andThen Date_now (\<lambda>t.
        andThen (Return (createStreamFlowError t err
                   (AList.update ''errorId'' (CStr errorId)
                     (AList.update ''operation'' (CStr operationName) ctx))))
          (\<lambda>streamFlowError.
        andThen (errorLogger_error streamFlowError) (\<lambda>_.
        Return \<lparr>data = None, error = Some streamFlowError\<rparr>)))))"

definition handleAsyncOperationWithRetry ::
  "('a option, 'w) js \<Rightarrow> string \<Rightarrow> ErrorContext \<Rightarrow> PartialRetryConfig option \<Rightarrow>
   ('a AsyncResult, 'w) js" where
  "handleAsyncOperationWithRetry operation operationName ctx retryConfig =
     try_catch
       (andThen (errorLogger_log DEBUG (''Starting operation with retry: '' @ operationName)) (\<lambda>_.
        andThen (withRetry operation
                   (case retryConfig of None \<Rightarrow> empty_config | Some c \<Rightarrow> c)) (\<lambda>d.
        andThen (errorLogger_log DEBUG (''Completed operation with retry: '' @ operationName)) (\<lambda>_.
        Return \<lparr>data = d, error = None\<rparr>))))
       (\<lambda>err.
        andThen (case err of
                   SFE e \<Rightarrow> Return e
                 | _ \<Rightarrow>
                     andThen createErrorId (\<lambda>errorId.
                     andThen Date_now (\<lambda>t.
                     Return (createStreamFlowError t err
                       (AList.update ''errorId'' (CStr errorId)
                         (AList.update ''operation'' (CStr operationName) ctx))))))
          (\<lambda>streamFlowError.
        andThen (errorLogger_error streamFlowError) (\<lambda>_.
        Return \<lparr>data = None, error = Some streamFlowError\<rparr>)))"

definition createQueryErrorHandler :: "string \<Rightarrow> thrown \<Rightarrow> (sferror, 'w) js" where
  "createQueryErrorHandler queryName err =
     andThen createErrorId (\<lambda>errorId.
     andThen Date_now (\<lambda>t.
     andThen (Return (createStreamFlowError t err
                [(''query'', CStr queryName), (''errorId'', CStr errorId)]))
       (\<lambda>streamFlowError.
     andThen (errorLogger_error streamFlowError) (\<lambda>_.
     Return streamFlowError))))"

definition validateRequired :: "'a option \<Rightarrow> string \<Rightarrow> ErrorContext \<Rightarrow> ('a, 'w) js" where
  "validateRequired v fieldName ctx =
     (case v of
        None \<Rightarrow>
          andThen Date_now (\<lambda>t.
          Throw (SFE (new_StreamFlowError t MISSING_REQUIRED_FIELD
            (''Required field '' @ [CHR 0x27] @ fieldName @ [CHR 0x27] @ '' is missing'')
            (AList.update ''fieldName'' (CStr fieldName) ctx) False)))
      | Some x \<Rightarrow> Return x)"

section \<open>Campaign data access (lib/streamflow.ts)\<close>

text \<open>
  Values that reach the program from the SDK. A field of a record received from the chain is
  \<open>undefined\<close>, \<open>null\<close>, a boolean, an integral number, \<open>NaN\<close>, a string, a \<open>BN\<close> (an
  arbitrary-precision integer), a \<open>PublicKey\<close> or some other object.
\<close>

datatype jsval =
    JUndefined | JNull | JBool bool | JNumber int | JNaN | JString string
  | JBN int | JKey pubkey | JObject

fun truthy :: "jsval \<Rightarrow> bool" where
  "truthy JUndefined = False"
| "truthy JNull = False"
| "truthy (JBool b) = b"
| "truthy (JNumber n) = (n \<noteq> 0)"
| "truthy JNaN = False"
| "truthy (JString s) = (s \<noteq> [])"
| "truthy (JBN v) = True"
| "truthy (JKey k) = True"
| "truthy JObject = True"

fun instanceof_BN :: "jsval \<Rightarrow> int option" where
  "instanceof_BN (JBN v) = Some v"
| "instanceof_BN _ = None"

fun typeof_boolean :: "jsval \<Rightarrow> bool option" where
  "typeof_boolean (JBool b) = Some b"
| "typeof_boolean _ = None"

text \<open>
  What \<open>client.getClaim\<close> resolves to: a falsy value (no claim account), a truthy value that
  is not an object, or an object with the fields the program reads.
\<close>

datatype raw_claim =
    ClaimFalsy
  | ClaimNotObject
  | ClaimObject (c_unlockedAmount: jsval) (c_lockedAmount: jsval)
      (c_lockedAmountWithdrawn: jsval) (c_closed: jsval)

record StreamflowClaimStatus =
  unlockedAmount :: int
  lockedAmount :: int
  lockedAmountWithdrawn :: jsval
  closed :: bool

record UserAirdropLeafData =
  totalAllocation :: int
  claimedAmount :: jsval
  isClaimed :: bool

text \<open>\<open>BatchUserAirdropData\<close>: the own properties of the result object.\<close>

type_synonym BatchUserAirdropData = "string \<rightharpoonup> UserAirdropLeafData option"

text \<open>
  A raw campaign record: not an object at all, or an object whose \<open>publicKey\<close> is any
  value and whose \<open>account\<close> is an object with fields or missing.
\<close>

record account_fields =
  acc_version :: jsval
  acc_mint :: jsval
  acc_startTs :: jsval
  acc_endTs :: jsval
  acc_decimals :: jsval
  acc_name :: "string option"
  acc_maxNumNodes :: "int option"
  acc_numNodesClaimed :: "int option"
  acc_maxTotalClaim :: "int option"
  acc_totalAmountClaimed :: "int option"

datatype raw_dist =
    DistNotObject
  | DistObject (d_publicKey: jsval) (d_account: "account_fields option")

record StreamflowDistributor =
  sd_publicKey :: jsval
  sd_account :: account_fields

record AirdropInfo =
  ai_publicKey :: string
  ai_version :: int
  ai_name :: string
  ai_isVested :: bool
  ai_maxNumNodes :: int
  ai_numNodesClaimed :: int
  ai_totalAmount :: int
  ai_claimedAmount :: int
  ai_decimals :: "int option"
  ai_mint :: string

record SearchParams =
  sp_mint :: "string option"
  sp_admin :: "string option"

text \<open>
  The external collaborators, taken as parameters: what the \<open>PublicKey\<close> constructor does
  with a string of base58 characters (decoding and length check) and the program-address
  derivation (both may throw), the two remote calls of the distributor client (they act on
  the remote state and may reject), the platform's \<open>Number(string)\<close> (\<open>None\<close> is \<open>NaN\<close>)
  and its rendering of a number as a string, and the \<open>BN\<close> constructor and \<open>BN.toNumber\<close>
  (both may throw).
\<close>

record 'w sdk =
  decode_PublicKey :: "string \<Rightarrow> thrown + pubkey"
  findProgramAddressSync :: "pubkey \<Rightarrow> pubkey \<Rightarrow> thrown + pubkey"
  getClaim :: "pubkey \<Rightarrow> 'w \<Rightarrow> (thrown + raw_claim) \<times> 'w"
  searchDistributors :: "SearchParams \<Rightarrow> 'w \<Rightarrow> (thrown + raw_dist list option) \<times> 'w"
  Number_of_string :: "string \<Rightarrow> int option"
  Number_toString :: "int \<Rightarrow> string"
  new_BN :: "int \<Rightarrow> thrown + int"
  BN_toNumber :: "int \<Rightarrow> thrown + int"

text \<open>
  \<open>new PublicKey(string)\<close> decodes base58 first: a character outside the alphabet makes the
  decoder throw, whatever the rest of the constructor does.
\<close>

definition base58_alphabet :: string where
  "base58_alphabet = ''123456789ABCDEFGHJKLMNPQRSTUVWXYZabcdefghijkmnopqrstuvwxyz''"

definition new_PublicKey :: "'w sdk \<Rightarrow> string \<Rightarrow> thrown + pubkey" where
  "new_PublicKey c k =
     (if list_all (\<lambda>ch. ch \<in> set base58_alphabet) k then decode_PublicKey c k
      else Inl (JSError ''Non-base58 character''))"

text \<open>
  \<open>value.toBase58()\<close> on a value of unknown shape: only a \<open>PublicKey\<close> has the method, and
  the call is a \<open>TypeError\<close> otherwise. With optional chaining on the receiver
  (\<open>value?.toBase58()\<close>) a nullish receiver gives \<open>undefined\<close> instead.
\<close>

fun call_toBase58 :: "jsval \<Rightarrow> thrown + string" where
  "call_toBase58 (JKey k) = Inr (toBase58 k)"
| "call_toBase58 JUndefined = Inl (JSError ''Cannot read properties of undefined'')"
| "call_toBase58 JNull = Inl (JSError ''Cannot read properties of null'')"
| "call_toBase58 _ = Inl (JSError ''toBase58 is not a function'')"

fun optional_toBase58 :: "jsval \<Rightarrow> thrown + string option" where
  "optional_toBase58 (JKey k) = Inr (Some (toBase58 k))"
| "optional_toBase58 JUndefined = Inr None"
| "optional_toBase58 JNull = Inr None"
| "optional_toBase58 _ = Inl (JSError ''toBase58 is not a function'')"

fun String_of :: "'w sdk \<Rightarrow> jsval \<Rightarrow> string" where
  "String_of c JUndefined = ''undefined''"
| "String_of c JNull = ''null''"
| "String_of c (JBool b) = (if b then ''true'' else ''false'')"
| "String_of c (JNumber n) = Number_toString c n"
| "String_of c JNaN = ''NaN''"
| "String_of c (JString s) = s"
| "String_of c (JBN v) = string_of_int v"
| "String_of c (JKey k) = toBase58 k"
| "String_of c JObject = ''[object Object]''"

text \<open>
  A plain object as the map of its own properties. An assignment \<open>obj[key] = value\<close> creates
  or overwrites the own property, except for the key \<open>__proto__\<close>: on an object created by
  \<open>{}\<close> that assignment runs the inherited setter, which replaces the prototype when the
  value is an object or \<open>null\<close> and creates no own property.
\<close>

definition proto_key :: string where
  "proto_key = ''__proto__''"

definition obj_assign :: "(string \<rightharpoonup> 'v) \<Rightarrow> string \<Rightarrow> 'v \<Rightarrow> (string \<rightharpoonup> 'v)" where
  "obj_assign m k v = (if k = proto_key then m else m(k \<mapsto> v))"

definition client_getClaim :: "'w sdk \<Rightarrow> pubkey \<Rightarrow> (raw_claim, 'w) js" where
  "client_getClaim c pda s =
     (case getClaim c pda (world s) of
        (r, w) \<Rightarrow> (r, s\<lparr>world := w, lookups := lookups s @ [pda]\<rparr>))"

definition client_searchDistributors ::
  "'w sdk \<Rightarrow> SearchParams \<Rightarrow> (raw_dist list option, 'w) js" where
  "client_searchDistributors c params s =
     (case searchDistributors c params (world s) of (r, w) \<Rightarrow> (r, s\<lparr>world := w\<rparr>))"

definition ctx_string :: "string option \<Rightarrow> ctxval" where
  "ctx_string v = (case v of None \<Rightarrow> CUndefined | Some x \<Rightarrow> CStr x)"

text \<open>
  The boolean that the type guard \<open>isValidDistributor\<close> returns: the value is an object, and
  \<open>publicKey\<close>, \<open>account\<close> and a non-nullish \<open>account.version\<close> are there.
\<close>

definition wellFormed :: "raw_dist \<Rightarrow> bool" where
  "wellFormed v =
     (case v of
        DistNotObject \<Rightarrow> False
      | DistObject pk acc \<Rightarrow>
          (case acc of
             Some a \<Rightarrow> truthy pk \<and> acc_version a \<noteq> JUndefined \<and> acc_version a \<noteq> JNull
           | None \<Rightarrow> False))"

definition isValidDistributor :: "raw_dist \<Rightarrow> (StreamflowDistributor option, 'w) js" where
  "isValidDistributor v =
     (case v of
        DistNotObject \<Rightarrow>
          andThen (errorLogger_log WARN ''Invalid distributor: not an object'') (\<lambda>_. Return None)
      | DistObject pk acc \<Rightarrow>
          (case acc of
             Some a \<Rightarrow>
               if truthy pk \<and> acc_version a \<noteq> JUndefined \<and> acc_version a \<noteq> JNull
               then Return (Some \<lparr>sd_publicKey = pk, sd_account = a\<rparr>)
               else andThen (errorLogger_log WARN ''Invalid distributor: missing required fields'')
                      (\<lambda>_. Return None)
           | None \<Rightarrow>
               andThen (errorLogger_log WARN ''Invalid distributor: missing required fields'')
                 (\<lambda>_. Return None)))"

definition isStreamflowClaimStatus :: "raw_claim \<Rightarrow> (StreamflowClaimStatus option, 'w) js" where
  "isStreamflowClaimStatus v =
     (case v of
        ClaimObject u l w c \<Rightarrow>
          (case (instanceof_BN u, instanceof_BN l, typeof_boolean c) of
             (Some u', Some l', Some c') \<Rightarrow>
               Return (Some \<lparr>unlockedAmount = u', lockedAmount = l',
                              lockedAmountWithdrawn = w, closed = c'\<rparr>)
           | _ \<Rightarrow>
               andThen (errorLogger_log WARN ''Invalid claim status: missing required fields'')
                 (\<lambda>_. Return None))
      | _ \<Rightarrow>
          andThen (errorLogger_log WARN ''Invalid claim status: not an object'') (\<lambda>_. Return None))"

definition toBN_failed :: "string \<Rightarrow> (int option, 'w) js" where
  "toBN_failed fieldName =
     (if fieldName \<noteq> []
      then andThen (errorLogger_log WARN (''Failed to convert '' @ fieldName @ '' to BN''))
             (\<lambda>_. Return None)
      else Return None)"

definition toBN :: "'w sdk \<Rightarrow> jsval \<Rightarrow> string \<Rightarrow> (int option, 'w) js" where
  "toBN c v fieldName =
     (case v of
        JUndefined \<Rightarrow> Return None
      | JNull \<Rightarrow> Return None
      | JBN b \<Rightarrow> Return (Some b)
      | JNumber n \<Rightarrow> andThen (sync (new_BN c n)) (\<lambda>b. Return (Some b))
      | JString str \<Rightarrow>
          (case Number_of_string c str of
             Some num \<Rightarrow> andThen (sync (new_BN c num)) (\<lambda>b. Return (Some b))
           | None \<Rightarrow> toBN_failed fieldName)
      | _ \<Rightarrow> toBN_failed fieldName)"

definition validatePublicKey :: "'w sdk \<Rightarrow> string \<Rightarrow> string \<Rightarrow> (pubkey, 'w) js" where
  "validatePublicKey c keyString fieldName =
     try_catch (sync (new_PublicKey c keyString))
       (\<lambda>err. andThen Date_now (\<lambda>t.
          Throw (SFE (new_StreamFlowError t INVALID_PUBLIC_KEY
            (''Invalid '' @ fieldName @ '': '' @ keyString)
            [(''fieldName'', CStr fieldName), (''keyString'', CStr keyString),
             (''originalError'', CErr err)]
            False))))"

definition orZero :: "'w sdk \<Rightarrow> int option \<Rightarrow> (int, 'w) js" where
  "orZero c v = (case v of Some b \<Rightarrow> Return b | None \<Rightarrow> sync (new_BN c 0))"

text \<open>
  The expression \<open>name || `Airdrop ${publicKey.toBase58().substring(0, 6)}...`\<close>: the
  default is computed only when the name is missing or empty.
\<close>

definition airdropName :: "jsval \<Rightarrow> string option \<Rightarrow> (string, 'w) js" where
  "airdropName publicKey nameField =
     (case nameField of
        Some n \<Rightarrow>
          if n \<noteq> [] then Return n
          else andThen (sync (call_toBase58 publicKey))
                 (\<lambda>b. Return (''Airdrop '' @ take 6 b @ ''...''))
      | None \<Rightarrow>
          andThen (sync (call_toBase58 publicKey))
            (\<lambda>b. Return (''Airdrop '' @ take 6 b @ ''...'')))"

definition transformDistributorToAirdropInfo ::
  "'w sdk \<Rightarrow> StreamflowDistributor \<Rightarrow> nat \<Rightarrow> (AirdropInfo option, 'w) js" where
  "transformDistributorToAirdropInfo c distributor index =
     try_catch
       (let account = sd_account distributor in
        andThen (toBN c (acc_version account) ''version'') (\<lambda>v.
        andThen (orZero c v) (\<lambda>versionBN.
        andThen (sync (BN_toNumber c versionBN)) (\<lambda>versionNumber.
        let mintAddress =
              (case acc_mint account of
                 JKey k \<Rightarrow> toBase58 k
               | m \<Rightarrow> if truthy m then String_of c m else ''Unknown'')
        in
        andThen (toBN c (acc_startTs account) ''startTs'') (\<lambda>startTsBN.
        andThen (toBN c (acc_endTs account) ''endTs'') (\<lambda>endTsBN.
        let calculatedIsVested =
              (case (startTsBN, endTsBN) of (Some a, Some b) \<Rightarrow> a \<noteq> b | _ \<Rightarrow> False);
            decimals =
              (case acc_decimals account of JNumber n \<Rightarrow> Some n | JNaN \<Rightarrow> None | _ \<Rightarrow> Some 0)
        in
        andThen (airdropName (sd_publicKey distributor) (acc_name account)) (\<lambda>nm.
        andThen (sync (call_toBase58 (sd_publicKey distributor))) (\<lambda>pk.
        andThen (orZero c (acc_maxNumNodes account)) (\<lambda>mx.
        andThen (orZero c (acc_numNodesClaimed account)) (\<lambda>nc.
        andThen (orZero c (acc_maxTotalClaim account)) (\<lambda>tot.
        andThen (orZero c (acc_totalAmountClaimed account)) (\<lambda>cl.
        Return (Some
          \<lparr>ai_publicKey = pk,
           ai_version = versionNumber,
           ai_name = nm,
           ai_isVested = calculatedIsVested,
           ai_maxNumNodes = mx,
           ai_numNodesClaimed = nc,
           ai_totalAmount = tot,
           ai_claimedAmount = cl,
           ai_decimals = decimals,
           ai_mint = mintAddress\<rparr>)))))))))))))
       (\<lambda>err.
          andThen (sync (optional_toBase58 (sd_publicKey distributor))) (\<lambda>_.
          andThen (errorLogger_log ERROR
                     (''Failed to transform distributor at index '' @ string_of_nat index))
            (\<lambda>_. Return None)))"

definition getAirdrops_item :: "'w sdk \<Rightarrow> nat \<times> raw_dist \<Rightarrow> (AirdropInfo option, 'w) js" where
  "getAirdrops_item c = (\<lambda>(index, distributor).
     andThen (isValidDistributor distributor) (\<lambda>v.
     case v of
       None \<Rightarrow> andThen (errorLogger_log WARN ''Skipping malformed distributor'') (\<lambda>_. Return None)
     | Some d \<Rightarrow> transformDistributorToAirdropInfo c d index))"


definition isTruthyString :: "string option \<Rightarrow> bool" where
  "isTruthyString v = (case v of None \<Rightarrow> False | Some x \<Rightarrow> x \<noteq> [])"

definition getAirdrops_operation ::
  "'w sdk \<Rightarrow> string option \<Rightarrow> string option \<Rightarrow> int option \<Rightarrow> (AirdropInfo list option, 'w) js" where
  "getAirdrops_operation c mintFilter admin limit =
     (let params = \<lparr>sp_mint = (if isTruthyString mintFilter then mintFilter else None),
                    sp_admin = (if isTruthyString admin then admin else None)\<rparr> in
      andThen (errorLogger_log DEBUG ''Searching distributors'') (\<lambda>_.
      andThen (client_searchDistributors c params) (\<lambda>searchResults.
      case searchResults of
        None \<Rightarrow> andThen (errorLogger_log INFO ''No distributors found'') (\<lambda>_. Return (Some []))
      | Some rs \<Rightarrow>
          andThen (errorLogger_log DEBUG
                     (''Found '' @ string_of_nat (length rs) @ '' distributors'')) (\<lambda>_.
          andThen (mapM (getAirdrops_item c) (enumerate 0 rs)) (\<lambda>items.
          let airdropInfos = sort_key (\<lambda>a. - ai_version a) (List.map_filter (\<lambda>x. x) items);
              finalResults =
                (case limit of
                   Some l \<Rightarrow>
                     if l \<noteq> 0 \<and> l > 0 \<and> l < int (length airdropInfos)
                     then take (nat l) airdropInfos else airdropInfos
                 | None \<Rightarrow> airdropInfos)
          in
          andThen (errorLogger_log DEBUG
                     (''Returning '' @ string_of_nat (length finalResults) @ '' airdrop infos''))
            (\<lambda>_. Return (Some finalResults)))))))"

definition getAirdrops ::
  "'w sdk \<Rightarrow> string option \<Rightarrow> string option \<Rightarrow> int option \<Rightarrow> (AirdropInfo list option, 'w) js" where
  "getAirdrops c mintFilter admin limit =
     andThen (handleAsyncOperationWithRetry (getAirdrops_operation c mintFilter admin limit)
                ''getAirdrops''
                [(''mintFilter'', ctx_string mintFilter), (''admin'', ctx_string admin),
                 (''limit'', (case limit of None \<Rightarrow> CUndefined | Some l \<Rightarrow> CNum l))]
                (Some \<lparr>p_maxRetries = Some 2, p_baseDelay = Some 1000, p_maxDelay = None,
                        p_exponentialBackoff = None\<rparr>))
       (\<lambda>r. case error r of Some e \<Rightarrow> Throw (SFE e) | None \<Rightarrow> Return (data r))"

definition getUserAirdropLeafData_operation ::
  "'w sdk \<Rightarrow> string option \<Rightarrow> string option \<Rightarrow> (UserAirdropLeafData option, 'w) js" where
  "getUserAirdropLeafData_operation c distributorPublicKeyString userWalletPublicKeyString =
     andThen (validateRequired distributorPublicKeyString ''distributorPublicKeyString'' []) (\<lambda>dStr.
     andThen (validateRequired userWalletPublicKeyString ''userWalletPublicKeyString'' []) (\<lambda>uStr.
     andThen (validatePublicKey c dStr ''distributor publicKey'') (\<lambda>distributorPk.
     andThen (validatePublicKey c uStr ''user wallet publicKey'') (\<lambda>userPk.
     andThen (errorLogger_log DEBUG ''Fetching user airdrop leaf data'') (\<lambda>_.
     andThen (sync (findProgramAddressSync c distributorPk userPk)) (\<lambda>claimStatusPda.
     andThen (client_getClaim c claimStatusPda) (\<lambda>claimStatus.
     andThen (if claimStatus = ClaimFalsy then Return None
              else isStreamflowClaimStatus claimStatus) (\<lambda>valid.
     case valid of
       None \<Rightarrow>
         andThen (errorLogger_log INFO ''No valid claim status found for user'') (\<lambda>_. Return None)
     | Some cs \<Rightarrow>
         (let result = \<lparr>totalAllocation = unlockedAmount cs + lockedAmount cs,
                        claimedAmount = lockedAmountWithdrawn cs,
                        isClaimed = closed cs\<rparr>
          in andThen (errorLogger_log DEBUG ''Successfully fetched user leaf data'')
               (\<lambda>_. Return (Some result)))))))))))"

definition getUserAirdropLeafData ::
  "'w sdk \<Rightarrow> string option \<Rightarrow> string option \<Rightarrow> (UserAirdropLeafData option, 'w) js" where
  "getUserAirdropLeafData c distributorPublicKeyString userWalletPublicKeyString =
     andThen (handleAsyncOperation
                (getUserAirdropLeafData_operation c distributorPublicKeyString
                   userWalletPublicKeyString)
                ''getUserAirdropLeafData''
                [(''distributorPublicKeyString'', ctx_string distributorPublicKeyString),
                 (''userWalletPublicKeyString'', ctx_string userWalletPublicKeyString)])
       (\<lambda>r. case error r of
               Some e \<Rightarrow>
                 (let errorMessage = toLowerCase (message e) in
                  if str_includes errorMessage ''account does not exist'' \<or>
                     str_includes errorMessage ''leaf not found'' \<or>
                     str_includes errorMessage ''recipient not found'' \<or>
                     str_includes errorMessage ''invalid account data''
                  then Return None
                  else Throw (SFE e))
             | None \<Rightarrow> Return (data r))"

text \<open>
  The two \<open>map\<close> callbacks of the batch. The fan-out is modelled in input order: the lookups
  are issued in that order, and each item's continuation touches only its own result and the
  console.
\<close>

definition batch_pda ::
  "'w sdk \<Rightarrow> pubkey \<Rightarrow> string \<Rightarrow> (string \<times> pubkey option \<times> sferror option, 'w) js" where
  "batch_pda c userPk publicKey =
     try_catch
       (andThen (validatePublicKey c publicKey ''distributor publicKey'') (\<lambda>distributorPk.
        andThen (sync (findProgramAddressSync c distributorPk userPk)) (\<lambda>claimStatusPda.
        Return (publicKey, Some claimStatusPda, None))))
       (\<lambda>err.
        andThen (errorLogger_log WARN ''Failed to generate PDA for airdrop'') (\<lambda>_.
        andThen Date_now (\<lambda>t.
        Return (publicKey, None, Some (createStreamFlowError t err [])))))"

definition batch_fetch ::
  "'w sdk \<Rightarrow> string \<times> pubkey option \<times> sferror option \<Rightarrow>
   (string \<times> UserAirdropLeafData option, 'w) js" where
  "batch_fetch c = (\<lambda>(publicKey, claimStatusPda, err).
     case (err, claimStatusPda) of
       (None, Some pda) \<Rightarrow>
         try_catch
           (andThen (client_getClaim c pda) (\<lambda>claimStatus.
            andThen (if claimStatus = ClaimFalsy then Return None
                     else isStreamflowClaimStatus claimStatus) (\<lambda>valid.
            case valid of
              None \<Rightarrow> Return (publicKey, None)
            | Some cs \<Rightarrow>
                (let leafData = \<lparr>totalAllocation = unlockedAmount cs + lockedAmount cs,
                                 claimedAmount = lockedAmountWithdrawn cs,
                                 isClaimed = closed cs\<rparr>
                 in Return (publicKey, Some leafData)))))
           (\<lambda>e. andThen (errorLogger_log WARN ''Failed to fetch leaf data for airdrop'')
                  (\<lambda>_. Return (publicKey, None)))
     | _ \<Rightarrow> Return (publicKey, None))"

definition getBatchUserAirdropLeafData_operation ::
  "'w sdk \<Rightarrow> string list \<Rightarrow> string option \<Rightarrow> (BatchUserAirdropData option, 'w) js" where
  "getBatchUserAirdropLeafData_operation c airdropPublicKeys userWalletPublicKeyString =
     andThen (validateRequired (Some airdropPublicKeys) ''airdropPublicKeys'' []) (\<lambda>_.
     andThen (validateRequired userWalletPublicKeyString ''userWalletPublicKeyString'' []) (\<lambda>uStr.
     if airdropPublicKeys = []
     then andThen (errorLogger_log WARN ''Empty or invalid airdrop public keys array'')
            (\<lambda>_. Return (Some Map.empty))
     else
       andThen (validatePublicKey c uStr ''user wallet publicKey'') (\<lambda>userPk.
       andThen (errorLogger_log DEBUG ''Starting batch user airdrop data fetch'') (\<lambda>_.
       andThen (mapM (batch_pda c userPk) airdropPublicKeys) (\<lambda>claimStatusPdas.
       andThen (mapM (batch_fetch c) claimStatusPdas) (\<lambda>claimResults.
       let result = foldl (\<lambda>m (publicKey, leafData). obj_assign m publicKey leafData)
                      Map.empty claimResults
       in andThen (errorLogger_log DEBUG ''Completed batch user airdrop data fetch'')
            (\<lambda>_. Return (Some result))))))))"

definition getBatchUserAirdropLeafData ::
  "'w sdk \<Rightarrow> string list \<Rightarrow> string option \<Rightarrow> (BatchUserAirdropData option, 'w) js" where
  "getBatchUserAirdropLeafData c airdropPublicKeys userWalletPublicKeyString =
     andThen (handleAsyncOperation
                (getBatchUserAirdropLeafData_operation c airdropPublicKeys
                   userWalletPublicKeyString)
                ''getBatchUserAirdropLeafData''
                [(''airdropPublicKeys'', CStrs airdropPublicKeys),
                 (''userWalletPublicKeyString'', ctx_string userWalletPublicKeyString)])
       (\<lambda>r. case error r of Some e \<Rightarrow> Throw (SFE e) | None \<Rightarrow> Return (data r))"

section \<open>The batch query (hooks: useBatchUserAirdropData)\<close>

text \<open>The \<open>queryFn\<close> of \<open>useBatchUserAirdropData\<close>.\<close>

definition useBatchUserAirdropData_queryFn ::
  "'w sdk \<Rightarrow> string list \<Rightarrow> string option \<Rightarrow> (BatchUserAirdropData option, 'w) js" where
  "useBatchUserAirdropData_queryFn c airdropPublicKeys userWalletPublicKey =
     (if \<not> isTruthyString userWalletPublicKey
      then andThen Date_now (\<lambda>t.
             Throw (SFE (new_StreamFlowError t WALLET_NOT_CONNECTED
               ''User wallet public key is required for fetching airdrop data''
               [(''airdropCount'', CNum (int (length airdropPublicKeys)))]
               False)))
      else if airdropPublicKeys = [] then Return (Some Map.empty)
      else try_catch (getBatchUserAirdropLeafData c airdropPublicKeys userWalletPublicKey)
             (\<lambda>err. andThen (createQueryErrorHandler ''batchUserAirdropData'' err)
                      (\<lambda>e. Throw (SFE e))))"

section \<open>Stub collaborators used to state and instantiate the properties\<close>

text \<open>
  A stub operation over a world that counts invocations: its \<open>i\<close>-th invocation (from 0) has
  the outcome \<open>f i\<close>.
\<close>

definition scripted :: "(nat \<Rightarrow> thrown + 'a) \<Rightarrow> ('a, nat) js" where
  "scripted f s = (f (world s), s\<lparr>world := Suc (world s)\<rparr>)"

text \<open>
  A stub SDK over a stateless remote service: a string of base58 characters decodes to a
  key when it is not empty, the derived key concatenates the two keys, the two remote calls
  answer from the given tables, and \<open>BN\<close> holds numbers of up to 53 bits, as bn.js does.
\<close>

definition stub_sdk ::
  "(pubkey \<Rightarrow> thrown + raw_claim) \<Rightarrow> (thrown + raw_dist list option) \<Rightarrow> unit sdk" where
  "stub_sdk claims dists =
     \<lparr>decode_PublicKey = (\<lambda>k. if k = [] then Inl (JSError ''Invalid public key input'')
                               else Inr (PublicKey k)),
      findProgramAddressSync = (\<lambda>d u. Inr (PublicKey (toBase58 d @ ''/'' @ toBase58 u))),
      getClaim = (\<lambda>p w. (claims p, w)),
      searchDistributors = (\<lambda>ps w. (dists, w)),
      Number_of_string = (\<lambda>str. None),
      Number_toString = string_of_int,
      new_BN = (\<lambda>n. if \<bar>n\<bar> < 2 ^ 53 then Inr n else Inl (JSError ''Assertion failed'')),
      BN_toNumber = (\<lambda>v. if \<bar>v\<bar> < 2 ^ 53 then Inr v
                          else Inl (JSError ''Number can only safely store up to 53 bits''))\<rparr>"

definition sample_account :: "int \<Rightarrow> account_fields" where
  "sample_account v =
     \<lparr>acc_version = JBN v, acc_mint = JString ''mint'', acc_startTs = JBN 0,
      acc_endTs = JBN 10, acc_decimals = JNumber 6, acc_name = None,
      acc_maxNumNodes = Some 3, acc_numNodesClaimed = None, acc_maxTotalClaim = Some 100,
      acc_totalAmountClaimed = Some 1\<rparr>"

definition sample_dist :: "string \<Rightarrow> int \<Rightarrow> raw_dist" where
  "sample_dist k v = DistObject (JKey (PublicKey k)) (Some (sample_account v))"






definition rt0 :: "'w \<Rightarrow> 'w rt" where
  "rt0 w = \<lparr>world = w, clock = 0, random = (\<lambda>_. ''r''), draws = 0, timers = [],
            console = [], lookups = []\<rparr>"

section \<open>Properties of the classifier\<close>

lemma str_includes_iff: "str_includes s sub \<longleftrightarrow> (\<exists>p q. s = p @ sub @ q)"
proof (induction s)
  case Nil
  then show ?case by auto
next
  case (Cons c cs)
  have "(\<exists>p q. c # cs = p @ sub @ q) \<longleftrightarrow> prefix sub (c # cs) \<or> (\<exists>p q. cs = p @ sub @ q)"
  proof
    assume "\<exists>p q. c # cs = p @ sub @ q"
    then obtain p q where pq: "c # cs = p @ sub @ q" by blast
    show "prefix sub (c # cs) \<or> (\<exists>p q. cs = p @ sub @ q)"
    proof (cases p)
      case Nil
      with pq show ?thesis by (auto simp: prefix_def)
    next
      case (Cons a p')
      with pq have "cs = p' @ sub @ q" by simp
      then show ?thesis by blast
    qed
  next
    assume "prefix sub (c # cs) \<or> (\<exists>p q. cs = p @ sub @ q)"
    then show "\<exists>p q. c # cs = p @ sub @ q"
    proof
      assume "prefix sub (c # cs)"
      then obtain q where "c # cs = sub @ q" by (auto simp: prefix_def)
      then have "c # cs = [] @ sub @ q" by simp
      then show ?thesis by blast
    next
      assume "\<exists>p q. cs = p @ sub @ q"
      then obtain p q where "cs = p @ sub @ q" by blast
      then have "c # cs = (c # p) @ sub @ q" by simp
      then show ?thesis by blast
    qed
  qed
  with Cons.IH show ?case by simp
qed

lemma retryable_createStreamFlowError_indep:
  "retryable (createStreamFlowError t e ctx) = retryable (createStreamFlowError t' e ctx')"
  by (cases e)
     (simp_all add: Let_def new_StreamFlowError_def new_NetworkError_def new_NotFoundError_def)

lemma message_createStreamFlowError_indep:
  "message (createStreamFlowError t e ctx) = message (createStreamFlowError t' e ctx')"
  by (cases e)
     (simp_all add: Let_def new_StreamFlowError_def new_NetworkError_def new_NotFoundError_def)

text \<open>
  C2. For a generic \<open>Error\<close> the classifier lower-cases the message and applies the ordered
  substring rules of the specification: the kind and the retry flag are those of the first
  matching rule ("network"/"fetch": network failure, retryable; "timeout": connection
  timeout, retryable; "account does not exist"/"account not found": account not found, not
  retryable; "invalid public key"/"invalid address": invalid public key, not retryable;
  "invalid account data": invalid account data, not retryable), and unknown, retryable, when
  no rule matches; the message is kept, and in the unknown case the context holds the
  original failure under \<open>originalError\<close>.
\<close>

theorem createStreamFlowError_generic_rules:
  "code (createStreamFlowError t (JSError msg) ctx) = fst (spec_classify msg)
   \<and> retryable (createStreamFlowError t (JSError msg) ctx) = snd (spec_classify msg)
   \<and> message (createStreamFlowError t (JSError msg) ctx) = msg
   \<and> (code (createStreamFlowError t (JSError msg) ctx) = UNKNOWN_ERROR \<longrightarrow>
        retryable (createStreamFlowError t (JSError msg) ctx)
        \<and> map_of (errContext (createStreamFlowError t (JSError msg) ctx)) ''originalError''
            = Some (CErr (JSError msg)))"
  by (simp add: spec_classify_def spec_rules_def Let_def new_StreamFlowError_def
      new_NetworkError_def new_NotFoundError_def update_Some_unfold)

theorem createStreamFlowError_generic_rules_witness:
  "code (createStreamFlowError 7 (JSError ''Boom'') []) = UNKNOWN_ERROR
   \<and> retryable (createStreamFlowError 7 (JSError ''Boom'') [])
   \<and> map_of (errContext (createStreamFlowError 7 (JSError ''Boom'') [])) ''originalError''
       = Some (CErr (JSError ''Boom''))"
proof -
  have u: "code (createStreamFlowError 7 (JSError ''Boom'') []) = UNKNOWN_ERROR"
    by code_simp
  show ?thesis
    using createStreamFlowError_generic_rules [of 7 "''Boom''" "[]"] u by blast
qed

text \<open>
  C6. Classification is idempotent: classifying the result of a classification gives that
  result back, and a value that is already a \<open>StreamFlowError\<close> is returned unchanged (the
  same object, hence the same kind, message, context, timestamp and retry flag), whatever
  the instant and the context of the second call.
\<close>

theorem createStreamFlowError_idempotent:
  "createStreamFlowError t' (SFE (createStreamFlowError t x ctx)) ctx'
     = createStreamFlowError t x ctx
   \<and> createStreamFlowError t' (SFE e) ctx' = e"
  by simp

section \<open>Properties of the retry policy\<close>







text \<open>
  C7. When the first invocation fails and the failure classifies as not retryable,
  \<open>withRetry\<close> throws that classification (with attempt index 0) and its whole effect is
  that of this single invocation: no second invocation, no delay, whatever (non-negative)
  \<open>maxRetries\<close> is configured.
\<close>

theorem withRetry_non_retryable_single_attempt:
  assumes op: "operation s = (Inl e, s1)"
    and nonretry: "\<not> retryable (createStreamFlowError t e ctx)"
    and nonneg: "0 \<le> maxRetries (merge_config DEFAULT_RETRY_CONFIG config)"
  shows "withRetry operation config s
           = (Inl (SFE (createStreamFlowError (clock s1) e
                 [(''attempt'', CNum 0),
                  (''maxRetries'', CNum (maxRetries (merge_config DEFAULT_RETRY_CONFIG config)))])),
              s1)
         \<and> timers (snd (withRetry operation config s)) = timers s1"
proof -
  let ?cfg = "merge_config DEFAULT_RETRY_CONFIG config"
  have nr: "\<not> retryable (createStreamFlowError (clock s1) e
                 [(''attempt'', CNum 0), (''maxRetries'', CNum (maxRetries ?cfg))])"
    using nonretry retryable_createStreamFlowError_indep by blast
  have "withRetry_loop operation ?cfg 0 None s
          = (Inl (SFE (createStreamFlowError (clock s1) e
                 [(''attempt'', CNum 0), (''maxRetries'', CNum (maxRetries ?cfg))])), s1)"
    using op nr nonneg by (subst withRetry_loop.simps) (simp add: Let_def)
  then show ?thesis by (simp add: withRetry_def)
qed

lemma not_found_not_retryable:
  "\<not> retryable (createStreamFlowError 0 (JSError ''Account not found'') [])"
  by code_simp

theorem withRetry_non_retryable_single_attempt_witness:
  "fst (withRetry (scripted (\<lambda>i. Inl (JSError ''Account not found'') :: thrown + unit))
          \<lparr>p_maxRetries = Some 5, p_baseDelay = None, p_maxDelay = None,
           p_exponentialBackoff = None\<rparr> (rt0 0))
     = Inl (SFE (createStreamFlowError 0 (JSError ''Account not found'')
              [(''attempt'', CNum 0), (''maxRetries'', CNum 5)]))
   \<and> world (snd (withRetry (scripted (\<lambda>i. Inl (JSError ''Account not found'') :: thrown + unit))
          \<lparr>p_maxRetries = Some 5, p_baseDelay = None, p_maxDelay = None,
           p_exponentialBackoff = None\<rparr> (rt0 0))) = 1
   \<and> timers (snd (withRetry (scripted (\<lambda>i. Inl (JSError ''Account not found'') :: thrown + unit))
          \<lparr>p_maxRetries = Some 5, p_baseDelay = None, p_maxDelay = None,
           p_exponentialBackoff = None\<rparr> (rt0 0))) = []"
proof -
  let ?op = "scripted (\<lambda>i. Inl (JSError ''Account not found'') :: thrown + unit)"
  let ?cfg = "\<lparr>p_maxRetries = Some 5, p_baseDelay = None, p_maxDelay = None,
           p_exponentialBackoff = None\<rparr>"
  have op: "?op (rt0 0) = (Inl (JSError ''Account not found''), (rt0 0)\<lparr>world := Suc 0\<rparr>)"
    by (simp add: scripted_def rt0_def)
  have n: "0 \<le> maxRetries (merge_config DEFAULT_RETRY_CONFIG ?cfg)"
    by (simp add: merge_config_def)
  have m: "maxRetries (merge_config DEFAULT_RETRY_CONFIG ?cfg) = 5"
    by (simp add: merge_config_def)
  show ?thesis
    using withRetry_non_retryable_single_attempt
            [of ?op "rt0 0" "JSError ''Account not found''" "(rt0 0)\<lparr>world := Suc 0\<rparr>" 0 "[]" ?cfg]
          op not_found_not_retryable n m
    by (simp add: rt0_def)
qed

section \<open>Properties of the operation wrapper\<close>

lemmas js_defs = Return_def Throw_def andThen_def try_catch_def sync_def Date_now_def
  errorLogger_log_def errorLogger_error_def createErrorId_def

text \<open>
  C4, as the claim states it, fails: the operation of the allocation lookup returns \<open>null\<close>
  for a user without a claim account, and the wrapper's result then has neither \<open>data\<close> nor
  \<open>error\<close> set.
\<close>

theorem handleAsyncOperation_both_absent_counterexample:
  "fst (handleAsyncOperation
          (getUserAirdropLeafData_operation (stub_sdk (\<lambda>p. Inr ClaimFalsy) (Inr None))
             (Some ''A'') (Some ''U''))
          ''getUserAirdropLeafData'' [] (rt0 ()))
     = Inr \<lparr>data = None, error = None\<rparr>"
  by code_simp

text \<open>
  C4, amended. Both wrappers always return a result and never throw; \<open>data\<close> and \<open>error\<close>
  are never both set; \<open>error\<close> is set exactly when the wrapped operation (for the retrying
  wrapper: \<open>withRetry\<close> of it) failed, and \<open>data\<close> is then \<open>null\<close>; on success \<open>data\<close> is the
  value the operation returned, so exactly one of the two is set unless the operation
  returned \<open>null\<close>, in which case neither is.
\<close>

theorem handleAsyncOperation_result:
  "(\<exists>r s'. handleAsyncOperation operation operationName ctx s = (Inr r, s')
       \<and> \<not> (data r \<noteq> None \<and> error r \<noteq> None)
       \<and> (case operation (snd (errorLogger_log DEBUG (''Starting operation: '' @ operationName) s)) of
            (Inr v, s1) \<Rightarrow> data r = v \<and> error r = None
          | (Inl e, s1) \<Rightarrow> data r = None \<and> error r \<noteq> None))
   \<and> (\<exists>r s'. handleAsyncOperationWithRetry operation operationName ctx retryConfig s = (Inr r, s')
       \<and> \<not> (data r \<noteq> None \<and> error r \<noteq> None)
       \<and> (case withRetry operation (case retryConfig of None \<Rightarrow> empty_config | Some c \<Rightarrow> c)
                 (snd (errorLogger_log DEBUG (''Starting operation with retry: '' @ operationName) s)) of
            (Inr v, s1) \<Rightarrow> data r = v \<and> error r = None
          | (Inl e, s1) \<Rightarrow> data r = None \<and> error r \<noteq> None))"
proof
  let ?s0 = "snd (errorLogger_log DEBUG (''Starting operation: '' @ operationName) s)"
  obtain res s1 where op: "operation ?s0 = (res, s1)" by (cases "operation ?s0")
  show "\<exists>r s'. handleAsyncOperation operation operationName ctx s = (Inr r, s')
       \<and> \<not> (data r \<noteq> None \<and> error r \<noteq> None)
       \<and> (case operation ?s0 of
            (Inr v, s1) \<Rightarrow> data r = v \<and> error r = None
          | (Inl e, s1) \<Rightarrow> data r = None \<and> error r \<noteq> None)"
    using op by (cases res) (simp_all add: handleAsyncOperation_def js_defs)
next
  let ?s0 = "snd (errorLogger_log DEBUG (''Starting operation with retry: '' @ operationName) s)"
  let ?cfg = "case retryConfig of None \<Rightarrow> empty_config | Some c \<Rightarrow> c"
  obtain res s1 where op: "withRetry operation ?cfg ?s0 = (res, s1)"
    by (cases "withRetry operation ?cfg ?s0")
  show "\<exists>r s'. handleAsyncOperationWithRetry operation operationName ctx retryConfig s = (Inr r, s')
       \<and> \<not> (data r \<noteq> None \<and> error r \<noteq> None)
       \<and> (case withRetry operation ?cfg ?s0 of
            (Inr v, s1) \<Rightarrow> data r = v \<and> error r = None
          | (Inl e, s1) \<Rightarrow> data r = None \<and> error r \<noteq> None)"
  proof (cases res)
    case (Inr v)
    with op show ?thesis by (simp add: handleAsyncOperationWithRetry_def js_defs)
  next
    case (Inl e)
    with op show ?thesis
      by (cases e) (simp_all add: handleAsyncOperationWithRetry_def js_defs)
  qed
qed

section \<open>Properties of the batched fetch\<close>

lemma mapM_total:
  assumes "\<And>x s. x \<in> set xs \<Longrightarrow> \<exists>y s'. f x s = (Inr y, s') \<and> Q x y"
  shows "\<exists>ys s'. mapM f xs s = (Inr ys, s') \<and> list_all2 Q xs ys"
  using assms
proof (induction xs arbitrary: s)
  case Nil
  then show ?case by (simp add: Return_def)
next
  case (Cons x xs)
  from Cons.prems[of x s] obtain y s1 where y: "f x s = (Inr y, s1)" "Q x y" by auto
  from Cons.IH[of s1] Cons.prems obtain ys s2 where
    ys: "mapM f xs s1 = (Inr ys, s2)" "list_all2 Q xs ys" by auto
  show ?case using y ys by (simp add: andThen_def Return_def)
qed

lemma batch_pda_post:
  "\<exists>pda err s'. batch_pda c uk k s = (Inr (k, pda, err), s')
     \<and> (case new_PublicKey c k of
          Inl e \<Rightarrow> pda = None
        | Inr dk \<Rightarrow> (case findProgramAddressSync c dk uk of
                       Inl e \<Rightarrow> pda = None
                     | Inr p \<Rightarrow> pda = Some p \<and> err = None))"
  by (simp add: batch_pda_def validatePublicKey_def js_defs split: sum.splits)

lemma batch_fetch_post:
  "\<exists>leaf s'. batch_fetch c (k, pda, err) s = (Inr (k, leaf), s')
     \<and> (pda = None \<longrightarrow> leaf = None)
     \<and> (\<forall>p. pda = Some p \<and> err = None \<longrightarrow>
          (case fst (getClaim c p (world s)) of
             Inl e \<Rightarrow> leaf = None
           | Inr ClaimFalsy \<Rightarrow> leaf = None
           | Inr ClaimNotObject \<Rightarrow> leaf = None
           | Inr (ClaimObject a b x y) \<Rightarrow>
               (case (instanceof_BN a, instanceof_BN b, typeof_boolean y) of
                  (Some ua, Some la, Some cl) \<Rightarrow>
                    leaf = Some \<lparr>totalAllocation = ua + la, claimedAmount = x, isClaimed = cl\<rparr>
                | _ \<Rightarrow> leaf = None)))"
  by (cases err; cases pda)
     (auto simp: batch_fetch_def client_getClaim_def isStreamflowClaimStatus_def js_defs Let_def
           split: sum.splits prod.splits raw_claim.splits option.splits)

lemma new_PublicKey_proto: "new_PublicKey c proto_key = Inl (JSError ''Non-base58 character'')"
  by (simp add: new_PublicKey_def base58_alphabet_def proto_key_def)

lemma new_PublicKey_not_proto: "new_PublicKey c k = Inr dk \<Longrightarrow> k \<noteq> proto_key"
  using new_PublicKey_proto[of c] by auto

lemma stub_new_PublicKey:
  "new_PublicKey (stub_sdk claims dists) k =
     (if list_all (\<lambda>ch. ch \<in> set base58_alphabet) k
      then (if k = [] then Inl (JSError ''Invalid public key input'') else Inr (PublicKey k))
      else Inl (JSError ''Non-base58 character''))"
  by (simp add: new_PublicKey_def stub_sdk_def)

lemma foldl_upd_dom:
  "dom (foldl (\<lambda>m (k, v). obj_assign m k v) m0 rs)
     = dom m0 \<union> (fst ` set rs - {proto_key})"
proof (induction rs arbitrary: m0)
  case Nil
  then show ?case by simp
next
  case (Cons r rs)
  obtain k v where r: "r = (k, v)" by (cases r)
  have "dom (foldl (\<lambda>m (k, v). obj_assign m k v) (obj_assign m0 k v) rs)
          = dom (obj_assign m0 k v) \<union> (fst ` set rs - {proto_key})"
    by (rule Cons.IH)
  moreover have "dom (obj_assign m0 k v) = dom m0 \<union> ({k} - {proto_key})"
    by (auto simp: obj_assign_def)
  ultimately show ?case
    unfolding r by (simp only: foldl_Cons prod.case) auto
qed

lemma foldl_upd_lookup:
  "foldl (\<lambda>m (k, v). obj_assign m k v) m0 rs k = Some v \<Longrightarrow> (k, v) \<in> set rs \<or> m0 k = Some v"
proof (induction rs arbitrary: m0)
  case Nil
  then show ?case by simp
next
  case (Cons r rs)
  obtain k' v' where r: "r = (k', v')" by (cases r)
  from Cons.prems have "foldl (\<lambda>m (k, v). obj_assign m k v) (obj_assign m0 k' v') rs k = Some v"
    unfolding r by (simp only: foldl_Cons prod.case)
  from Cons.IH[OF this] have "(k, v) \<in> set rs \<or> (obj_assign m0 k' v') k = Some v" .
  then show ?case using r by (auto simp: obj_assign_def split: if_splits)
qed

lemma batch_fetch_stable:
  "\<exists>leaf s'. batch_fetch c (k, pda, err) s = (Inr (k, leaf), s')
     \<and> (pda = None \<longrightarrow> leaf = None)
     \<and> (\<forall>p. pda = Some p \<and> err = None \<longrightarrow>
          ((\<forall>w. \<exists>e. fst (getClaim c p w) = Inl e) \<longrightarrow> leaf = None)
          \<and> (\<forall>ua la x cl.
                (\<forall>w. fst (getClaim c p w) = Inr (ClaimObject (JBN ua) (JBN la) x (JBool cl))) \<longrightarrow>
                leaf = Some \<lparr>totalAllocation = ua + la, claimedAmount = x, isClaimed = cl\<rparr>))"
proof -
  from batch_fetch_post[of c k pda err s] obtain leaf s' where
    r: "batch_fetch c (k, pda, err) s = (Inr (k, leaf), s')"
    and n: "pda = None \<longrightarrow> leaf = None"
    and p: "\<forall>p. pda = Some p \<and> err = None \<longrightarrow>
          (case fst (getClaim c p (world s)) of
             Inl e \<Rightarrow> leaf = None
           | Inr ClaimFalsy \<Rightarrow> leaf = None
           | Inr ClaimNotObject \<Rightarrow> leaf = None
           | Inr (ClaimObject a b x y) \<Rightarrow>
               (case (instanceof_BN a, instanceof_BN b, typeof_boolean y) of
                  (Some ua, Some la, Some cl) \<Rightarrow>
                    leaf = Some \<lparr>totalAllocation = ua + la, claimedAmount = x, isClaimed = cl\<rparr>
                | _ \<Rightarrow> leaf = None))"
    by blast
  have "\<forall>p. pda = Some p \<and> err = None \<longrightarrow>
          ((\<forall>w. \<exists>e. fst (getClaim c p w) = Inl e) \<longrightarrow> leaf = None)
          \<and> (\<forall>ua la x cl.
                (\<forall>w. fst (getClaim c p w) = Inr (ClaimObject (JBN ua) (JBN la) x (JBool cl))) \<longrightarrow>
                leaf = Some \<lparr>totalAllocation = ua + la, claimedAmount = x, isClaimed = cl\<rparr>)"
  proof (intro allI impI conjI)
    fix q assume q: "pda = Some q \<and> err = None" and f: "\<forall>w. \<exists>e. fst (getClaim c q w) = Inl e"
    from f obtain e where "fst (getClaim c q (world s)) = Inl e" by blast
    with p q show "leaf = None" by auto
  next
    fix q ua la x cl
    assume q: "pda = Some q \<and> err = None"
      and f: "\<forall>w. fst (getClaim c q w) = Inr (ClaimObject (JBN ua) (JBN la) x (JBool cl))"
    from f have "fst (getClaim c q (world s)) = Inr (ClaimObject (JBN ua) (JBN la) x (JBool cl))"
      by blast
    with p q show "leaf = Some \<lparr>totalAllocation = ua + la, claimedAmount = x, isClaimed = cl\<rparr>"
      by auto
  qed
  with r n show ?thesis by blast
qed

lemma batch_operation_entries:
  assumes user: "new_PublicKey c u = Inr uk" and ne: "ids \<noteq> []"
  shows "\<exists>m s'. getBatchUserAirdropLeafData_operation c ids (Some u) s = (Inr (Some m), s')
     \<and> dom m = set ids - {proto_key}
     \<and> (\<forall>k v. m k = Some v \<longrightarrow>
          (case new_PublicKey c k of
             Inl e \<Rightarrow> v = None
           | Inr dk \<Rightarrow>
              (case findProgramAddressSync c dk uk of
                 Inl e \<Rightarrow> v = None
               | Inr p \<Rightarrow>
                   ((\<forall>w. \<exists>e. fst (getClaim c p w) = Inl e) \<longrightarrow> v = None)
                   \<and> (\<forall>ua la x cl.
                        (\<forall>w. fst (getClaim c p w)
                               = Inr (ClaimObject (JBN ua) (JBN la) x (JBool cl))) \<longrightarrow>
                        v = Some \<lparr>totalAllocation = ua + la, claimedAmount = x,
                                  isClaimed = cl\<rparr>))))"
proof -
  define G where "G = (\<lambda>p (v :: UserAirdropLeafData option).
       ((\<forall>w. \<exists>e. fst (getClaim c p w) = Inl e) \<longrightarrow> v = None)
       \<and> (\<forall>ua la x cl.
            (\<forall>w. fst (getClaim c p w) = Inr (ClaimObject (JBN ua) (JBN la) x (JBool cl))) \<longrightarrow>
            v = Some \<lparr>totalAllocation = ua + la, claimedAmount = x, isClaimed = cl\<rparr>))"
  define E where "E = (\<lambda>k v. (case new_PublicKey c k of
             Inl e \<Rightarrow> v = None
           | Inr dk \<Rightarrow>
              (case findProgramAddressSync c dk uk of
                 Inl e \<Rightarrow> v = None
               | Inr p \<Rightarrow> G p v)))"
  define Q1 where "Q1 = (\<lambda>k (y :: string \<times> pubkey option \<times> sferror option).
     \<exists>pda err. y = (k, pda, err)
     \<and> (case new_PublicKey c k of
          Inl e \<Rightarrow> pda = None
        | Inr dk \<Rightarrow> (case findProgramAddressSync c dk uk of
                       Inl e \<Rightarrow> pda = None
                     | Inr p \<Rightarrow> pda = Some p \<and> err = None)))"
  define Q2 where "Q2 = (\<lambda>(y :: string \<times> pubkey option \<times> sferror option) z.
     \<exists>k pda err leaf. y = (k, pda, err) \<and> z = (k, leaf)
     \<and> (pda = None \<longrightarrow> leaf = None)
     \<and> (\<forall>p. pda = Some p \<and> err = None \<longrightarrow> G p leaf))"
  let ?s1 = "snd (errorLogger_log DEBUG ''Starting batch user airdrop data fetch'' s)"
  have "\<And>x s. x \<in> set ids \<Longrightarrow> \<exists>y s'. batch_pda c uk x s = (Inr y, s') \<and> Q1 x y"
    unfolding Q1_def using batch_pda_post[of c uk] by blast
  from mapM_total[of ids "batch_pda c uk" Q1 ?s1, OF this]
  obtain pdas s2 where pdas: "mapM (batch_pda c uk) ids ?s1 = (Inr pdas, s2)"
    and q1: "list_all2 Q1 ids pdas" by blast
  have "\<And>y s. y \<in> set pdas \<Longrightarrow> \<exists>z s'. batch_fetch c y s = (Inr z, s') \<and> Q2 y z"
  proof -
    fix y :: "string \<times> pubkey option \<times> sferror option" and s :: "'a rt"
    obtain k pda err where y: "y = (k, pda, err)" by (cases y)
    from batch_fetch_stable[of c k pda err s] y
    show "\<exists>z s'. batch_fetch c y s = (Inr z, s') \<and> Q2 y z"
      unfolding Q2_def G_def by blast
  qed
  from mapM_total[of pdas "batch_fetch c" Q2 s2, OF this]
  obtain results s3 where results: "mapM (batch_fetch c) pdas s2 = (Inr results, s3)"
    and q2: "list_all2 Q2 pdas results" by blast
  have step: "\<And>k y z. Q1 k y \<Longrightarrow> Q2 y z \<Longrightarrow> \<exists>v. z = (k, v) \<and> E k v"
  proof -
    fix k y z assume a: "Q1 k y" and b: "Q2 y z"
    from a obtain pda err where y: "y = (k, pda, err)"
      and d: "(case new_PublicKey c k of
          Inl e \<Rightarrow> pda = None
        | Inr dk \<Rightarrow> (case findProgramAddressSync c dk uk of
                       Inl e \<Rightarrow> pda = None
                     | Inr p \<Rightarrow> pda = Some p \<and> err = None))"
      unfolding Q1_def by blast
    from b y obtain leaf where z: "z = (k, leaf)"
      and n: "pda = None \<longrightarrow> leaf = None"
      and g: "\<forall>p. pda = Some p \<and> err = None \<longrightarrow> G p leaf"
      unfolding Q2_def by auto
    have "E k leaf"
      unfolding E_def using d n g by (auto split: sum.splits)
    with z show "\<exists>v. z = (k, v) \<and> E k v" by blast
  qed
  have q12: "list_all2 (\<lambda>k z. \<exists>v. z = (k, v) \<and> E k v) ids results"
    using step q1 q2 by (rule list_all2_trans)
  let ?m = "foldl (\<lambda>m (publicKey, leafData). obj_assign m publicKey leafData) Map.empty results"
  have keys: "map fst results = ids"
    using q12 by (induction ids results rule: list_all2_induct) auto
  have "fst ` set results = set ids"
    using keys by (metis set_map)
  then have dom: "dom ?m = set ids - {proto_key}"
    by (simp add: foldl_upd_dom)
  have ent: "\<forall>k v. ?m k = Some v \<longrightarrow> E k v"
  proof (intro allI impI)
    fix k v assume "?m k = Some v"
    from foldl_upd_lookup[OF this] have "(k, v) \<in> set results" by simp
    with q12 show "E k v"
      by (induction ids results rule: list_all2_induct) auto
  qed
  have "getBatchUserAirdropLeafData_operation c ids (Some u) s
        = (Inr (Some ?m), snd (errorLogger_log DEBUG ''Completed batch user airdrop data fetch'' s3))"
    using user ne pdas results
    by (simp add: getBatchUserAirdropLeafData_operation_def validateRequired_def
        validatePublicKey_def js_defs Let_def)
  with dom ent show ?thesis unfolding E_def G_def by blast
qed

lemma getBatch_from_operation:
  assumes "getBatchUserAirdropLeafData_operation c ids u
             (snd (errorLogger_log DEBUG (''Starting operation: '' @ ''getBatchUserAirdropLeafData'') s))
           = (Inr v, s1)"
  shows "\<exists>s'. getBatchUserAirdropLeafData c ids u s = (Inr v, s')"
  using assms by (simp add: getBatchUserAirdropLeafData_def handleAsyncOperation_def js_defs)

lemma batch_operation_empty:
  "getBatchUserAirdropLeafData_operation c [] (Some u) s
     = (Inr (Some Map.empty),
        snd (errorLogger_log WARN ''Empty or invalid airdrop public keys array'' s))"
  by (simp add: getBatchUserAirdropLeafData_operation_def validateRequired_def js_defs)

lemma getBatchUserAirdropLeafData_entries:
  assumes user: "new_PublicKey c u = Inr uk"
  shows "\<exists>m s'. getBatchUserAirdropLeafData c ids (Some u) s = (Inr (Some m), s')
     \<and> dom m = set ids - {proto_key}
     \<and> (\<forall>k \<in> set ids. k \<noteq> proto_key \<and> (\<exists>e. new_PublicKey c k = Inl e) \<longrightarrow>
           m k = Some None)
     \<and> (\<forall>k \<in> set ids. \<forall>dk. new_PublicKey c k = Inr dk
            \<and> (\<exists>e. findProgramAddressSync c dk uk = Inl e) \<longrightarrow> m k = Some None)
     \<and> (\<forall>k \<in> set ids. \<forall>dk p. new_PublicKey c k = Inr dk
            \<and> findProgramAddressSync c dk uk = Inr p
            \<and> (\<forall>w. \<exists>e. fst (getClaim c p w) = Inl e) \<longrightarrow> m k = Some None)
     \<and> (\<forall>k \<in> set ids. \<forall>dk p ua la x cl. new_PublicKey c k = Inr dk
            \<and> findProgramAddressSync c dk uk = Inr p
            \<and> (\<forall>w. fst (getClaim c p w) = Inr (ClaimObject (JBN ua) (JBN la) x (JBool cl)))
            \<longrightarrow> m k = Some (Some \<lparr>totalAllocation = ua + la, claimedAmount = x,
                                      isClaimed = cl\<rparr>))"
proof (cases "ids = []")
  case True
  let ?s0 = "snd (errorLogger_log DEBUG (''Starting operation: '' @ ''getBatchUserAirdropLeafData'') s)"
  from getBatch_from_operation[OF batch_operation_empty[of c u ?s0]]
  obtain s' where "getBatchUserAirdropLeafData c [] (Some u) s = (Inr (Some Map.empty), s')"
    by blast
  then show ?thesis unfolding True by (intro exI[of _ Map.empty] exI[of _ s']) simp
next
  case False
  let ?s0 = "snd (errorLogger_log DEBUG (''Starting operation: '' @ ''getBatchUserAirdropLeafData'') s)"
  from batch_operation_entries[OF user False, of ?s0]
  obtain m s1 where
    op: "getBatchUserAirdropLeafData_operation c ids (Some u) ?s0 = (Inr (Some m), s1)"
    and dom: "dom m = set ids - {proto_key}"
    and ent: "\<forall>k v. m k = Some v \<longrightarrow>
          (case new_PublicKey c k of
             Inl e \<Rightarrow> v = None
           | Inr dk \<Rightarrow>
              (case findProgramAddressSync c dk uk of
                 Inl e \<Rightarrow> v = None
               | Inr p \<Rightarrow>
                   ((\<forall>w. \<exists>e. fst (getClaim c p w) = Inl e) \<longrightarrow> v = None)
                   \<and> (\<forall>ua la x cl.
                        (\<forall>w. fst (getClaim c p w)
                               = Inr (ClaimObject (JBN ua) (JBN la) x (JBool cl))) \<longrightarrow>
                        v = Some \<lparr>totalAllocation = ua + la, claimedAmount = x,
                                  isClaimed = cl\<rparr>)))"
    by blast
  from getBatch_from_operation[OF op] obtain s' where
    r: "getBatchUserAirdropLeafData c ids (Some u) s = (Inr (Some m), s')" by blast
  have entk: "\<And>k v. m k = Some v \<Longrightarrow>
          (case new_PublicKey c k of
             Inl e \<Rightarrow> v = None
           | Inr dk \<Rightarrow>
              (case findProgramAddressSync c dk uk of
                 Inl e \<Rightarrow> v = None
               | Inr p \<Rightarrow>
                   ((\<forall>w. \<exists>e. fst (getClaim c p w) = Inl e) \<longrightarrow> v = None)
                   \<and> (\<forall>ua la x cl.
                        (\<forall>w. fst (getClaim c p w)
                               = Inr (ClaimObject (JBN ua) (JBN la) x (JBool cl))) \<longrightarrow>
                        v = Some \<lparr>totalAllocation = ua + la, claimedAmount = x,
                                  isClaimed = cl\<rparr>)))"
    using ent by blast
  have some: "\<And>k. k \<in> set ids \<Longrightarrow> k \<noteq> proto_key \<Longrightarrow> \<exists>v. m k = Some v"
  proof -
    fix k :: string assume "k \<in> set ids" and "k \<noteq> proto_key"
    then have "k \<in> dom m" unfolding dom by simp
    then show "\<exists>v. m k = Some v" by (rule domD)
  qed
  have a: "\<forall>k \<in> set ids. k \<noteq> proto_key \<and> (\<exists>e. new_PublicKey c k = Inl e) \<longrightarrow>
             m k = Some None"
  proof (intro ballI impI)
    fix k assume k: "k \<in> set ids"
      and f: "k \<noteq> proto_key \<and> (\<exists>e. new_PublicKey c k = Inl e)"
    from f have np: "k \<noteq> proto_key" and "\<exists>e. new_PublicKey c k = Inl e"
      by (rule conjunct1, rule conjunct2)
    then obtain e where e: "new_PublicKey c k = Inl e" by blast
    from some[OF k np] obtain v where v: "m k = Some v" by blast
    from entk[OF v] e v show "m k = Some None" by simp
  qed
  have b: "\<forall>k \<in> set ids. \<forall>dk. new_PublicKey c k = Inr dk
            \<and> (\<exists>e. findProgramAddressSync c dk uk = Inl e) \<longrightarrow> m k = Some None"
  proof (intro ballI allI impI)
    fix k dk assume k: "k \<in> set ids"
      and f: "new_PublicKey c k = Inr dk \<and> (\<exists>e. findProgramAddressSync c dk uk = Inl e)"
    from f have "new_PublicKey c k = Inr dk" by (rule conjunct1)
    then have "k \<noteq> proto_key" by (rule new_PublicKey_not_proto)
    from some[OF k this] obtain v where v: "m k = Some v" by blast
    from entk[OF v] f v show "m k = Some None" by auto
  qed
  have c: "\<forall>k \<in> set ids. \<forall>dk p. new_PublicKey c k = Inr dk
            \<and> findProgramAddressSync c dk uk = Inr p
            \<and> (\<forall>w. \<exists>e. fst (getClaim c p w) = Inl e) \<longrightarrow> m k = Some None"
  proof (intro ballI allI impI)
    fix k dk p assume k: "k \<in> set ids"
      and f: "new_PublicKey c k = Inr dk \<and> findProgramAddressSync c dk uk = Inr p
            \<and> (\<forall>w. \<exists>e. fst (getClaim c p w) = Inl e)"
    from f have "new_PublicKey c k = Inr dk" by (rule conjunct1)
    then have "k \<noteq> proto_key" by (rule new_PublicKey_not_proto)
    from some[OF k this] obtain v where v: "m k = Some v" by blast
    from entk[OF v] f v show "m k = Some None" by simp
  qed
  have d: "\<forall>k \<in> set ids. \<forall>dk p ua la x cl. new_PublicKey c k = Inr dk
            \<and> findProgramAddressSync c dk uk = Inr p
            \<and> (\<forall>w. fst (getClaim c p w) = Inr (ClaimObject (JBN ua) (JBN la) x (JBool cl)))
            \<longrightarrow> m k = Some (Some \<lparr>totalAllocation = ua + la, claimedAmount = x,
                                      isClaimed = cl\<rparr>)"
  proof (intro ballI allI impI)
    fix k dk p ua la x cl assume k: "k \<in> set ids"
      and f: "new_PublicKey c k = Inr dk \<and> findProgramAddressSync c dk uk = Inr p
            \<and> (\<forall>w. fst (getClaim c p w) = Inr (ClaimObject (JBN ua) (JBN la) x (JBool cl)))"
    from f have "new_PublicKey c k = Inr dk" by (rule conjunct1)
    then have "k \<noteq> proto_key" by (rule new_PublicKey_not_proto)
    from some[OF k this] obtain v where v: "m k = Some v" by blast
    from entk[OF v] f v
    show "m k = Some (Some \<lparr>totalAllocation = ua + la, claimedAmount = x, isClaimed = cl\<rparr>)"
      by simp
  qed
  from r dom a b c d show ?thesis by blast
qed

text \<open>
  C1. The claim is what the code sets out to do, and the code misses one case. For a user
  identity that parses, the batch does return a mapping and every identifier other than
  \<open>__proto__\<close> is one of its keys, with \<open>null\<close> for a failed derivation or lookup
  (\<open>getBatchUserAirdropLeafData_entries\<close>). For the identifier \<open>__proto__\<close> the key
  derivation fails, the entry degrades to \<open>null\<close>, and the assignment
  \<open>result[publicKey] = leafData\<close> then adds no key: with the identifiers \<open>A\<close> and
  \<open>__proto__\<close> the returned mapping has the single key \<open>A\<close>.
\<close>

theorem getBatchUserAirdropLeafData_proto_key_lost:
  "\<exists>m. fst (getBatchUserAirdropLeafData
             (stub_sdk (\<lambda>p. Inr (ClaimObject (JBN 5) (JBN 7) (JBN 1) (JBool False))) (Inr None))
             [''A'', ''__proto__''] (Some ''U'') (rt0 ())) = Inr (Some m)
     \<and> dom m = {''A''}
     \<and> m ''__proto__'' = None
     \<and> m ''A'' = Some (Some \<lparr>totalAllocation = 12, claimedAmount = JBN 1, isClaimed = False\<rparr>)"
proof -
  let ?c = "stub_sdk (\<lambda>p. Inr (ClaimObject (JBN 5) (JBN 7) (JBN 1) (JBool False))) (Inr None)"
  have u: "new_PublicKey ?c ''U'' = Inr (PublicKey ''U'')"
    by (simp add: stub_new_PublicKey base58_alphabet_def)
  have a: "new_PublicKey ?c ''A'' = Inr (PublicKey ''A'')"
    by (simp add: stub_new_PublicKey base58_alphabet_def)
  from getBatchUserAirdropLeafData_entries [OF u, of "[''A'', ''__proto__'']" "rt0 ()"]
  obtain m s' where
    r: "getBatchUserAirdropLeafData ?c [''A'', ''__proto__''] (Some ''U'') (rt0 ()) = (Inr (Some m), s')"
    and d: "dom m = set [''A'', ''__proto__''] - {proto_key}"
    and v: "\<forall>k \<in> set [''A'', ''__proto__'']. \<forall>dk p ua la x cl. new_PublicKey ?c k = Inr dk
            \<and> findProgramAddressSync ?c dk (PublicKey ''U'') = Inr p
            \<and> (\<forall>w. fst (getClaim ?c p w) = Inr (ClaimObject (JBN ua) (JBN la) x (JBool cl)))
            \<longrightarrow> m k = Some (Some \<lparr>totalAllocation = ua + la, claimedAmount = x,
                                      isClaimed = cl\<rparr>)"
    by blast
  have dm: "dom m = {''A''}"
    using d by (auto simp: proto_key_def)
  have "''__proto__'' \<notin> dom m"
    unfolding dm by simp
  then have np: "m ''__proto__'' = None"
    by (simp add: domIff)
  have p: "findProgramAddressSync ?c (PublicKey ''A'') (PublicKey ''U'') = Inr (PublicKey ''A/U'')"
    and g: "\<forall>w. fst (getClaim ?c (PublicKey ''A/U'') w)
               = Inr (ClaimObject (JBN 5) (JBN 7) (JBN 1) (JBool False))"
    by (simp_all add: stub_sdk_def)
  have mem: "''A'' \<in> set [''A'', ''__proto__'']" by simp
  have "m ''A'' = Some (Some \<lparr>totalAllocation = 5 + 7, claimedAmount = JBN 1,
                                isClaimed = False\<rparr>)"
    using v[rule_format, OF mem, of "PublicKey ''A''" "PublicKey ''A/U''" 5 7 "JBN 1" False]
      a p g by blast
  then have ma: "m ''A'' = Some (Some \<lparr>totalAllocation = 12, claimedAmount = JBN 1,
                                         isClaimed = False\<rparr>)"
    by simp
  have "fst (getBatchUserAirdropLeafData ?c [''A'', ''__proto__''] (Some ''U'') (rt0 ()))
          = Inr (Some m)"
    using r by simp
  then show ?thesis using dm np ma by blast
qed

section \<open>Properties of the allocation lookups\<close>

lemma getUser_from_operation:
  assumes "getUserAirdropLeafData_operation c d u
             (snd (errorLogger_log DEBUG (''Starting operation: '' @ ''getUserAirdropLeafData'') s))
           = (Inr v, s1)"
  shows "fst (getUserAirdropLeafData c d u s) = Inr v"
  using assms by (simp add: getUserAirdropLeafData_def handleAsyncOperation_def js_defs)

lemma getUser_operation_lookup:
  assumes d: "new_PublicKey c k = Inr dk" and u: "new_PublicKey c u = Inr uk"
    and p: "findProgramAddressSync c dk uk = Inr p"
    and g: "getClaim c p (world s) = (R, w)"
  shows "fst (getUserAirdropLeafData_operation c (Some k) (Some u) s) =
     (case R of
        Inl e \<Rightarrow> Inl e
      | Inr ClaimFalsy \<Rightarrow> Inr None
      | Inr ClaimNotObject \<Rightarrow> Inr None
      | Inr (ClaimObject a b x y) \<Rightarrow>
          (case (instanceof_BN a, instanceof_BN b, typeof_boolean y) of
             (Some ua, Some la, Some cl) \<Rightarrow>
               Inr (Some \<lparr>totalAllocation = ua + la, claimedAmount = x, isClaimed = cl\<rparr>)
           | _ \<Rightarrow> Inr None))"
  using d u p g
  by (simp add: getUserAirdropLeafData_operation_def validateRequired_def validatePublicKey_def
        client_getClaim_def isStreamflowClaimStatus_def js_defs Let_def
      split: sum.splits raw_claim.splits option.splits)

text \<open>
  C10. When both keys parse, the claim address derives and the lookup resolves to a record
  that passes the shape check (two \<open>BN\<close> amounts and a boolean \<open>closed\<close>), the single
  lookup and the batch (for every batch that contains the identifier) compute the same
  allocation: \<open>totalAllocation\<close> is \<open>unlockedAmount + lockedAmount\<close>, \<open>claimedAmount\<close> is
  \<open>lockedAmountWithdrawn\<close> and \<open>isClaimed\<close> is \<open>closed\<close>.
\<close>

theorem leaf_data_same_on_both_paths:
  assumes d: "new_PublicKey c k = Inr dk" and u: "new_PublicKey c u = Inr uk"
    and p: "findProgramAddressSync c dk uk = Inr p"
    and claim: "\<forall>w. fst (getClaim c p w) = Inr (ClaimObject (JBN ua) (JBN la) x (JBool cl))"
  shows "fst (getUserAirdropLeafData c (Some k) (Some u) s)
           = Inr (Some \<lparr>totalAllocation = ua + la, claimedAmount = x, isClaimed = cl\<rparr>)
     \<and> (k \<in> set ids \<longrightarrow>
          (\<exists>m. fst (getBatchUserAirdropLeafData c ids (Some u) s') = Inr (Some m)
             \<and> m k = Some (Some \<lparr>totalAllocation = ua + la, claimedAmount = x,
                                   isClaimed = cl\<rparr>)))"
proof
  let ?s0 = "snd (errorLogger_log DEBUG (''Starting operation: '' @ ''getUserAirdropLeafData'') s)"
  obtain R w where g: "getClaim c p (world ?s0) = (R, w)" by (cases "getClaim c p (world ?s0)")
  with claim have R: "R = Inr (ClaimObject (JBN ua) (JBN la) x (JBool cl))"
    by (metis fst_conv)
  obtain res s1 where op: "getUserAirdropLeafData_operation c (Some k) (Some u) ?s0 = (res, s1)"
    by (cases "getUserAirdropLeafData_operation c (Some k) (Some u) ?s0")
  from getUser_operation_lookup[OF d u p g] R op
  have "res = Inr (Some \<lparr>totalAllocation = ua + la, claimedAmount = x, isClaimed = cl\<rparr>)"
    by simp
  with op getUser_from_operation
  show "fst (getUserAirdropLeafData c (Some k) (Some u) s)
           = Inr (Some \<lparr>totalAllocation = ua + la, claimedAmount = x, isClaimed = cl\<rparr>)"
    by blast
next
  show "k \<in> set ids \<longrightarrow>
          (\<exists>m. fst (getBatchUserAirdropLeafData c ids (Some u) s') = Inr (Some m)
             \<and> m k = Some (Some \<lparr>totalAllocation = ua + la, claimedAmount = x,
                                   isClaimed = cl\<rparr>))"
  proof
    assume k: "k \<in> set ids"
    then have ne: "ids \<noteq> []" by auto
    let ?s0 = "snd (errorLogger_log DEBUG (''Starting operation: '' @ ''getBatchUserAirdropLeafData'') s')"
    from batch_operation_entries[OF u ne, of ?s0]
    obtain m s1 where
      op: "getBatchUserAirdropLeafData_operation c ids (Some u) ?s0 = (Inr (Some m), s1)"
      and dom: "dom m = set ids - {proto_key}"
      and ent: "\<forall>k v. m k = Some v \<longrightarrow>
          (case new_PublicKey c k of
             Inl e \<Rightarrow> v = None
           | Inr dk \<Rightarrow>
              (case findProgramAddressSync c dk uk of
                 Inl e \<Rightarrow> v = None
               | Inr p \<Rightarrow>
                   ((\<forall>w. \<exists>e. fst (getClaim c p w) = Inl e) \<longrightarrow> v = None)
                   \<and> (\<forall>ua la x cl.
                        (\<forall>w. fst (getClaim c p w)
                               = Inr (ClaimObject (JBN ua) (JBN la) x (JBool cl))) \<longrightarrow>
                        v = Some \<lparr>totalAllocation = ua + la, claimedAmount = x,
                                  isClaimed = cl\<rparr>)))"
      by blast
    have "k \<noteq> proto_key" using d by (rule new_PublicKey_not_proto)
    with dom k obtain v where v: "m k = Some v" by auto
    from ent v have "(case new_PublicKey c k of
             Inl e \<Rightarrow> v = None
           | Inr dk \<Rightarrow>
              (case findProgramAddressSync c dk uk of
                 Inl e \<Rightarrow> v = None
               | Inr p \<Rightarrow>
                   ((\<forall>w. \<exists>e. fst (getClaim c p w) = Inl e) \<longrightarrow> v = None)
                   \<and> (\<forall>ua la x cl.
                        (\<forall>w. fst (getClaim c p w)
                               = Inr (ClaimObject (JBN ua) (JBN la) x (JBool cl))) \<longrightarrow>
                        v = Some \<lparr>totalAllocation = ua + la, claimedAmount = x,
                                  isClaimed = cl\<rparr>)))" by blast
    with d p claim have "v = Some \<lparr>totalAllocation = ua + la, claimedAmount = x, isClaimed = cl\<rparr>"
      by simp
    moreover from getBatch_from_operation[OF op]
    have "fst (getBatchUserAirdropLeafData c ids (Some u) s') = Inr (Some m)" by auto
    ultimately show "\<exists>m. fst (getBatchUserAirdropLeafData c ids (Some u) s') = Inr (Some m)
             \<and> m k = Some (Some \<lparr>totalAllocation = ua + la, claimedAmount = x,
                                   isClaimed = cl\<rparr>)"
      using v by blast
  qed
qed

theorem leaf_data_same_on_both_paths_witness:
  "fst (getUserAirdropLeafData
          (stub_sdk (\<lambda>p. Inr (ClaimObject (JBN 5) (JBN 7) (JBN 1) (JBool False))) (Inr None))
          (Some ''A'') (Some ''U'') (rt0 ()))
     = Inr (Some \<lparr>totalAllocation = 12, claimedAmount = JBN 1, isClaimed = False\<rparr>)
   \<and> (\<exists>m. fst (getBatchUserAirdropLeafData
          (stub_sdk (\<lambda>p. Inr (ClaimObject (JBN 5) (JBN 7) (JBN 1) (JBool False))) (Inr None))
          [''A'', ''B''] (Some ''U'') (rt0 ())) = Inr (Some m)
        \<and> m ''A'' = Some (Some \<lparr>totalAllocation = 12, claimedAmount = JBN 1, isClaimed = False\<rparr>))"
proof -
  let ?c = "stub_sdk (\<lambda>p. Inr (ClaimObject (JBN 5) (JBN 7) (JBN 1) (JBool False))) (Inr None)"
  have d: "new_PublicKey ?c ''A'' = Inr (PublicKey ''A'')"
    and u: "new_PublicKey ?c ''U'' = Inr (PublicKey ''U'')"
    and p: "findProgramAddressSync ?c (PublicKey ''A'') (PublicKey ''U'') = Inr (PublicKey ''A/U'')"
    and g: "\<forall>w. fst (getClaim ?c (PublicKey ''A/U'') w)
               = Inr (ClaimObject (JBN 5) (JBN 7) (JBN 1) (JBool False))"
    by (simp_all add: stub_sdk_def new_PublicKey_def base58_alphabet_def)
  show ?thesis
    using leaf_data_same_on_both_paths [OF d u p g, where ids = "[''A'', ''B'']" and s = "rt0 ()" and s' = "rt0 ()"]
    by simp
qed


lemma getUser_from_operation_failure:
  assumes op: "getUserAirdropLeafData_operation c d u
             (snd (errorLogger_log DEBUG (''Starting operation: '' @ ''getUserAirdropLeafData'') s))
           = (Inl e, s1)"
    and m: "m = toLowerCase (message (createStreamFlowError 0 e []))"
    and phrase: "str_includes m ''account does not exist'' \<or> str_includes m ''leaf not found'' \<or>
       str_includes m ''recipient not found'' \<or> str_includes m ''invalid account data''"
  shows "fst (getUserAirdropLeafData c d u s) = Inr None"
proof -
  have msg: "\<And>t ctx. toLowerCase (message (createStreamFlowError t e ctx)) = m"
    using m message_createStreamFlowError_indep by metis
  show ?thesis
    using op phrase
    by (simp add: getUserAirdropLeafData_def handleAsyncOperation_def js_defs msg Let_def)
qed

text \<open>
  C9. The single lookup returns \<open>null\<close>, and does not throw, whenever its operation fails
  with a failure whose classified message, lower-cased, contains "account does not exist",
  "leaf not found", "recipient not found" or "invalid account data"; and, for keys that
  parse and derive, whenever the lookup resolves to no claim account, to something that is
  not an object, or to an object that fails the shape check, or is rejected with such a
  message.
\<close>

theorem getUserAirdropLeafData_absence:
  "(\<forall>e s1 m. getUserAirdropLeafData_operation c dO uO
             (snd (errorLogger_log DEBUG (''Starting operation: '' @ ''getUserAirdropLeafData'') s))
           = (Inl e, s1)
        \<and> m = toLowerCase (message (createStreamFlowError 0 e []))
        \<and> (str_includes m ''account does not exist'' \<or> str_includes m ''leaf not found'' \<or>
           str_includes m ''recipient not found'' \<or> str_includes m ''invalid account data'')
        \<longrightarrow> fst (getUserAirdropLeafData c dO uO s) = Inr None)
   \<and> (new_PublicKey c k = Inr dk \<and> new_PublicKey c u = Inr uk
        \<and> findProgramAddressSync c dk uk = Inr p \<longrightarrow>
        (fst (getClaim c p (world s)) = Inr ClaimFalsy \<longrightarrow>
           fst (getUserAirdropLeafData c (Some k) (Some u) s) = Inr None)
      \<and> (fst (getClaim c p (world s)) = Inr ClaimNotObject \<longrightarrow>
           fst (getUserAirdropLeafData c (Some k) (Some u) s) = Inr None)
      \<and> (\<forall>a b x y. fst (getClaim c p (world s)) = Inr (ClaimObject a b x y)
            \<and> (instanceof_BN a = None \<or> instanceof_BN b = None \<or> typeof_boolean y = None) \<longrightarrow>
           fst (getUserAirdropLeafData c (Some k) (Some u) s) = Inr None)
      \<and> (\<forall>e m. fst (getClaim c p (world s)) = Inl e
            \<and> m = toLowerCase (message (createStreamFlowError 0 e []))
            \<and> (str_includes m ''account does not exist'' \<or> str_includes m ''leaf not found'' \<or>
               str_includes m ''recipient not found'' \<or> str_includes m ''invalid account data'')
            \<longrightarrow> fst (getUserAirdropLeafData c (Some k) (Some u) s) = Inr None))"
proof (intro conjI allI impI)
  fix e s1 m
  assume "getUserAirdropLeafData_operation c dO uO
             (snd (errorLogger_log DEBUG (''Starting operation: '' @ ''getUserAirdropLeafData'') s))
           = (Inl e, s1)
        \<and> m = toLowerCase (message (createStreamFlowError 0 e []))
        \<and> (str_includes m ''account does not exist'' \<or> str_includes m ''leaf not found'' \<or>
           str_includes m ''recipient not found'' \<or> str_includes m ''invalid account data'')"
  then show "fst (getUserAirdropLeafData c dO uO s) = Inr None"
    using getUser_from_operation_failure by blast
next
  let ?s0 = "snd (errorLogger_log DEBUG (''Starting operation: '' @ ''getUserAirdropLeafData'') s)"
  assume keys: "new_PublicKey c k = Inr dk \<and> new_PublicKey c u = Inr uk
        \<and> findProgramAddressSync c dk uk = Inr p"
  obtain R w where g: "getClaim c p (world ?s0) = (R, w)" by (cases "getClaim c p (world ?s0)")
  have w0: "world ?s0 = world s" by (simp add: errorLogger_log_def)
  obtain res s1 where op: "getUserAirdropLeafData_operation c (Some k) (Some u) ?s0 = (res, s1)"
    by (cases "getUserAirdropLeafData_operation c (Some k) (Some u) ?s0")
  from keys g have look: "res =
     (case R of
        Inl e \<Rightarrow> Inl e
      | Inr ClaimFalsy \<Rightarrow> Inr None
      | Inr ClaimNotObject \<Rightarrow> Inr None
      | Inr (ClaimObject a b x y) \<Rightarrow>
          (case (instanceof_BN a, instanceof_BN b, typeof_boolean y) of
             (Some ua, Some la, Some cl) \<Rightarrow>
               Inr (Some \<lparr>totalAllocation = ua + la, claimedAmount = x, isClaimed = cl\<rparr>)
           | _ \<Rightarrow> Inr None))"
    using getUser_operation_lookup[of c k dk u uk p ?s0 R w] op by simp
  {
    assume "fst (getClaim c p (world s)) = Inr ClaimFalsy"
    with g w0 have "R = Inr ClaimFalsy" by simp
    with look op show "fst (getUserAirdropLeafData c (Some k) (Some u) s) = Inr None"
      using getUser_from_operation by fastforce
  next
    assume "fst (getClaim c p (world s)) = Inr ClaimNotObject"
    with g w0 have "R = Inr ClaimNotObject" by simp
    with look op show "fst (getUserAirdropLeafData c (Some k) (Some u) s) = Inr None"
      using getUser_from_operation by fastforce
  next
    fix a b x y
    assume "fst (getClaim c p (world s)) = Inr (ClaimObject a b x y)
            \<and> (instanceof_BN a = None \<or> instanceof_BN b = None \<or> typeof_boolean y = None)"
    with g w0 have "R = Inr (ClaimObject a b x y)"
      and "instanceof_BN a = None \<or> instanceof_BN b = None \<or> typeof_boolean y = None" by simp_all
    with look have "res = Inr None" by (auto split: option.splits)
    with op show "fst (getUserAirdropLeafData c (Some k) (Some u) s) = Inr None"
      using getUser_from_operation by fastforce
  next
    fix e m
    assume a: "fst (getClaim c p (world s)) = Inl e
            \<and> m = toLowerCase (message (createStreamFlowError 0 e []))
            \<and> (str_includes m ''account does not exist'' \<or> str_includes m ''leaf not found'' \<or>
               str_includes m ''recipient not found'' \<or> str_includes m ''invalid account data'')"
    with g w0 have "R = Inl e" by simp
    with look op have "getUserAirdropLeafData_operation c (Some k) (Some u) ?s0 = (Inl e, s1)"
      by simp
    with a show "fst (getUserAirdropLeafData c (Some k) (Some u) s) = Inr None"
      using getUser_from_operation_failure by blast
  }
qed

lemma leaf_not_found_phrase:
  "str_includes (toLowerCase (message (createStreamFlowError 0 (JSError ''Leaf not found in tree'') [])))
     ''leaf not found''"
  by code_simp

theorem getUserAirdropLeafData_absence_witness:
  "fst (getUserAirdropLeafData
          (stub_sdk (\<lambda>p. Inl (JSError ''Leaf not found in tree'')) (Inr None))
          (Some ''A'') (Some ''U'') (rt0 ())) = Inr None
   \<and> fst (getUserAirdropLeafData (stub_sdk (\<lambda>p. Inr ClaimFalsy) (Inr None))
          (Some ''A'') (Some ''U'') (rt0 ())) = Inr None"
proof -
  let ?c = "stub_sdk (\<lambda>p. Inl (JSError ''Leaf not found in tree'')) (Inr None)"
  let ?c' = "stub_sdk (\<lambda>p. Inr ClaimFalsy) (Inr None)"
  have "fst (getUserAirdropLeafData ?c (Some ''A'') (Some ''U'') (rt0 ())) = Inr None"
    using getUserAirdropLeafData_absence
      [where c = ?c and k = "''A''" and dk = "PublicKey ''A''" and u = "''U''"
         and uk = "PublicKey ''U''" and p = "PublicKey ''A/U''" and s = "rt0 ()"]
      leaf_not_found_phrase
    by (simp add: stub_sdk_def new_PublicKey_def base58_alphabet_def)
  moreover have "fst (getUserAirdropLeafData ?c' (Some ''A'') (Some ''U'') (rt0 ())) = Inr None"
    using getUserAirdropLeafData_absence
      [where c = ?c' and k = "''A''" and dk = "PublicKey ''A''" and u = "''U''"
         and uk = "PublicKey ''U''" and p = "PublicKey ''A/U''" and s = "rt0 ()"]
    by (simp add: stub_sdk_def new_PublicKey_def base58_alphabet_def)
  ultimately show ?thesis by simp
qed

section \<open>Properties of the batch query\<close>

text \<open>
  C5. The batch query checks its preconditions first. With the user identity absent
  or empty it throws a \<open>WALLET_NOT_CONNECTED\<close> error that is not retryable and leaves the
  state as it was: no lookup was attempted and nothing was logged. With an identity present
  and no identifiers it returns the empty mapping; so does \<open>getBatchUserAirdropLeafData\<close>
  itself, without a lookup.
\<close>

theorem useBatchUserAirdropData_preconditions:
  "((u = None \<or> u = Some []) \<longrightarrow>
      (\<exists>e. useBatchUserAirdropData_queryFn c ids u s = (Inl (SFE e), s)
         \<and> code e = WALLET_NOT_CONNECTED \<and> \<not> retryable e))
   \<and> (\<forall>v. u = Some v \<and> v \<noteq> [] \<longrightarrow>
        useBatchUserAirdropData_queryFn c [] u s = (Inr (Some Map.empty), s)
        \<and> fst (getBatchUserAirdropLeafData c [] u s) = Inr (Some Map.empty)
        \<and> lookups (snd (getBatchUserAirdropLeafData c [] u s)) = lookups s
        \<and> world (snd (getBatchUserAirdropLeafData c [] u s)) = world s)"
  by (auto simp: useBatchUserAirdropData_queryFn_def isTruthyString_def new_StreamFlowError_def
        getBatchUserAirdropLeafData_def handleAsyncOperation_def
        getBatchUserAirdropLeafData_operation_def validateRequired_def js_defs)

theorem useBatchUserAirdropData_preconditions_witness:
  "(\<exists>e. useBatchUserAirdropData_queryFn (stub_sdk (\<lambda>p. Inr ClaimFalsy) (Inr None))
            [''A'', ''B''] None (rt0 ()) = (Inl (SFE e), rt0 ())
       \<and> code e = WALLET_NOT_CONNECTED \<and> \<not> retryable e)
   \<and> useBatchUserAirdropData_queryFn (stub_sdk (\<lambda>p. Inr ClaimFalsy) (Inr None))
            [] (Some ''U'') (rt0 ()) = (Inr (Some Map.empty), rt0 ())"
  using useBatchUserAirdropData_preconditions
      [where c = "stub_sdk (\<lambda>p. Inr ClaimFalsy) (Inr None)" and u = None and s = "rt0 ()"
         and ids = "[''A'', ''B'']"]
    useBatchUserAirdropData_preconditions
      [where c = "stub_sdk (\<lambda>p. Inr ClaimFalsy) (Inr None)" and u = "Some ''U''" and s = "rt0 ()"]
  by simp

section \<open>Properties of the campaign list\<close>




















lemma andThen_Return: "andThen (Return v) f = f v"
  by (rule ext) (simp add: andThen_def Return_def)

lemma andThen_throw: "m s = (Inl e, s1) \<Longrightarrow> andThen m f s = (Inl e, s1)"
  by (simp add: andThen_def)

lemma try_catch_throw: "b s = (Inl e, s1) \<Longrightarrow> try_catch b h s = h e s1"
  by (simp add: try_catch_def)

































lemma world_log [simp]: "world (snd (errorLogger_log level msg s)) = world s"
  by (simp add: errorLogger_log_def)








lemma getAirdrops_foreign_key_fails:
  "(case fst (getAirdrops
                (stub_sdk (\<lambda>p. Inr ClaimFalsy)
                   (Inr (Some [sample_dist ''K1'' 1,
                               DistObject (JString ''K2'') (Some (sample_account 2))])))
                None None None (rt0 ())) of
      Inl (SFE e) \<Rightarrow> code e = UNKNOWN_ERROR \<and> message e = ''toBase58 is not a function''
    | _ \<Rightarrow> False)
   \<and> wellFormed (DistObject (JString ''K2'') (Some (sample_account 2)))"
  by code_simp




end
